theory Spec2Isabelle
  imports Main
begin

section \<open>Strings\<close>

text \<open>
  Strings of the action (inputs, label names, URLs, logins) are values of \<^typ>\<open>string\<close>. A
  character below 128 is the ASCII character of that code; a string with other characters is
  taken in an encoding that keeps the ASCII characters as they are (UTF-8, say), which the
  split at commas, the regular expression and the comparison of strings do not look into.

  The program applies four functions of the JavaScript platform to its strings: \<open>trim\<close>,
  \<open>toLowerCase\<close>, \<open>toLocaleLowerCase\<close> and \<open>parseInt\<close>. What they return depends on the Unicode
  tables, on the locale and on the representation of numbers, none of which is in the
  repository. They are a parameter of the model, the record \<open>builtins\<close> below, and the program is
  verified for every value of it, or under an assumption that is stated where it is used.
\<close>

record builtins =
  b_trim :: "string \<Rightarrow> string"
  b_toLowerCase :: "string \<Rightarrow> string"
  b_toLocaleLowerCase :: "string \<Rightarrow> string"
  b_parseInt :: "string \<Rightarrow> nat option"

text \<open>
  \<open>b_parseInt js s\<close> is \<open>parseInt(s, 10)\<close>, \<open>None\<close> standing for a result that is not a finite
  number. The program applies it to the digits the regular expression captured, so a finite
  result is a natural number.

  The rest of this section is the ASCII fragment of the four functions: what they do on strings
  of characters below 128. \<open>toLowerCase\<close> folds \<open>A\<close>..\<open>Z\<close> (codes 65 to 90) to \<open>a\<close>..\<open>z\<close> by
  setting the bit of value 32 and leaves every other character as it is; \<open>trim\<close> strips TAB,
  LF, VT, FF, CR and SPACE at both ends; \<open>parseInt\<close> gives the exact value of the leading
  digits. The fragment says what it is for two spellings to differ in letter case or in
  surrounding white space, and it is the platform of the examples (\<open>asciiBuiltins\<close>).
\<close>

definition isWhiteSpace :: "char \<Rightarrow> bool" where
  "isWhiteSpace c =
     (c = CHR 0x09 \<or> c = CHR 0x0A \<or> c = CHR 0x0B \<or> c = CHR 0x0C \<or> c = CHR 0x0D \<or> c = CHR '' '')"

definition trim :: "string \<Rightarrow> string" where
  "trim s = rev (dropWhile isWhiteSpace (rev (dropWhile isWhiteSpace s)))"

definition toLowerChar :: "char \<Rightarrow> char" where
  "toLowerChar c =
     (let n = (of_char c :: nat)
      in if 65 \<le> n \<and> n \<le> 90
         then (case c of Char b0 b1 b2 b3 b4 b5 b6 b7 \<Rightarrow> Char b0 b1 b2 b3 b4 True b6 b7)
         else c)"

definition toLowerCase :: "string \<Rightarrow> string" where
  "toLowerCase s = map toLowerChar s"

text \<open>\<open>s.split(sep)\<close> for a one-character separator: the pieces between the separators,
  empty pieces kept; the empty string splits into one empty piece.\<close>

fun split :: "char \<Rightarrow> string \<Rightarrow> string list" where
  "split sep [] = [[]]"
| "split sep (c # cs) =
     (if c = sep then [] # split sep cs
      else (case split sep cs of
              [] \<Rightarrow> [[c]]
            | p # ps \<Rightarrow> (c # p) # ps))"

text \<open>The class \<open>\d\<close> of the regular expression, and the exact \<open>parseInt\<close>: the value of the
  leading decimal digits as a natural number, \<open>None\<close> (for \<open>NaN\<close>) when there is no digit.
  JavaScript agrees with it up to \<open>2^53\<close> and rounds beyond.\<close>

definition isDigit :: "char \<Rightarrow> bool" where
  "isDigit c = (let n = (of_char c :: nat) in 48 \<le> n \<and> n \<le> 57)"

definition parseInt :: "string \<Rightarrow> nat option" where
  "parseInt s =
     (let ds = takeWhile isDigit s
      in if ds = [] then None
         else Some (foldl (\<lambda>n c. 10 * n + (of_char c - 48)) 0 ds))"

definition isAscii :: "string \<Rightarrow> bool" where
  "isAscii s = list_all (\<lambda>c. (of_char c :: nat) < 128) s"

definition asciiBuiltins :: builtins where
  "asciiBuiltins =
     \<lparr>b_trim = trim, b_toLowerCase = toLowerCase, b_toLocaleLowerCase = toLowerCase,
      b_parseInt = parseInt\<rparr>"

section \<open>The project URL\<close>

text \<open>
  \<^verbatim>\<open>const urlParse =
  /^(?:https:\/\/)?github\.com\/(?<ownerType>orgs|users)\/(?<ownerName>[^/]+)\/projects\/(?<projectNumber>\d+)/\<close>

  \<open>urlParse s\<close> is the result of \<open>s.match(urlParse)\<close>: \<open>None\<close> when there is no match,
  otherwise the three named groups. The expression is anchored at the start and not at the
  end. The quantifiers are greedy, and no shorter choice can make a failed match succeed:
  \<open>[^/]+\<close> must be followed by \<open>/\<close>, and nothing follows \<open>\d+\<close>.
\<close>

fun stripPrefix :: "string \<Rightarrow> string \<Rightarrow> string option" where
  "stripPrefix [] s = Some s"
| "stripPrefix (p # ps) [] = None"
| "stripPrefix (p # ps) (c # cs) = (if p = c then stripPrefix ps cs else None)"

record groups =
  group_ownerType :: string
  group_ownerName :: string
  group_projectNumber :: string

definition matchOwnerType :: "string \<Rightarrow> (string \<times> string) option" where
  "matchOwnerType s =
     (case stripPrefix ''orgs'' s of
        Some r \<Rightarrow> Some (''orgs'', r)
      | None \<Rightarrow>
          (case stripPrefix ''users'' s of
             Some r \<Rightarrow> Some (''users'', r)
           | None \<Rightarrow> None))"

definition urlParse :: "string \<Rightarrow> groups option" where
  "urlParse s =
     (let s0 = (case stripPrefix ''https://'' s of Some r \<Rightarrow> r | None \<Rightarrow> s) in
      case stripPrefix ''github.com/'' s0 of
        None \<Rightarrow> None
      | Some s1 \<Rightarrow>
     (case matchOwnerType s1 of
        None \<Rightarrow> None
      | Some (ot, s2) \<Rightarrow>
     (case stripPrefix ''/'' s2 of
        None \<Rightarrow> None
      | Some s3 \<Rightarrow>
     (let on = takeWhile (\<lambda>c. c \<noteq> CHR ''/'') s3 in
      if on = [] then None
      else
     (case stripPrefix ''/projects/'' (dropWhile (\<lambda>c. c \<noteq> CHR ''/'') s3) of
        None \<Rightarrow> None
      | Some s4 \<Rightarrow>
     (let pn = takeWhile isDigit s4 in
      if pn = [] then None
      else Some \<lparr>group_ownerType = ot, group_ownerName = on, group_projectNumber = pn\<rparr>))))))"

section \<open>Data of a run\<close>

datatype OwnerQueryTypes = Organization | User

text \<open>A response object with the optional members \<open>organization\<close> and \<open>user\<close>
  (\<open>ProjectNodeIDResponse\<close>, \<open>ProjectV2FieldIDResponse\<close>), and \<open>resp[ownerTypeQuery]\<close>.\<close>

record 'a OwnerKeyed =
  organization :: "'a option"
  user :: "'a option"

definition atOwner :: "'a OwnerKeyed \<Rightarrow> OwnerQueryTypes \<Rightarrow> 'a option" where
  "atOwner resp q = (case q of Organization \<Rightarrow> organization resp | User \<Rightarrow> user resp)"

record ProjectV2 =
  projectV2_id :: string

record field_option =
  option_id :: string
  option_name :: string

text \<open>The field \<open>Status\<close> of the field-id response. \<open>options\<close> is present for a
  single-select field only; the code reads it as \<open>options || []\<close>.\<close>

record field =
  field_id :: string
  options :: "field_option list option"

type_synonym ProjectNodeIDResponse = "ProjectV2 OwnerKeyed"
type_synonym ProjectV2FieldIDResponse = "field OwnerKeyed"

text \<open>The trigger payload \<open>github.context.payload\<close>, as far as the program reads it: the
  issue or the pull request with its number, labels (by name), html URL and node id, and the
  owner login of the repository. A member the program reads with \<open>?.\<close> or \<open>??\<close> is optional.\<close>

record webhook_issue =
  number :: nat
  labels :: "string list option"
  html_url :: "string option"
  node_id :: "string option"

record repository =
  owner_login :: string

record payload =
  payload_issue :: "webhook_issue option"
  payload_pull_request :: "webhook_issue option"
  payload_repository :: "repository option"

text \<open>The values \<open>core.getInput\<close> returns for the five inputs of the action. A run of the model
  starts once they are read: the reads of the required inputs \<open>project-url\<close> and
  \<open>github-token\<close> have succeeded, and the client \<open>github.getOctokit(ghToken)\<close> is built.\<close>

record inputs =
  input_project_url :: string
  input_github_token :: string
  input_labeled :: string
  input_label_operator :: string
  input_status_override :: string

text \<open>The GraphQL operations the program sends, with their variables.\<close>

datatype request =
    GetProject OwnerQueryTypes "string option" "nat option"
  | AddProjectV2ItemById "string option" "string option"
  | AddProjectV2DraftIssue "string option" "string option"
  | GetStatusFieldId OwnerQueryTypes string "nat option"
  | UpdateProjectV2ItemFieldValue string string "string option" string

text \<open>Log lines, by what they report rather than as formatted text.\<close>

datatype message =
    IssueOwner "string option"
  | SkipNotAllLabels "nat option" "string list"
  | SkipHasLabel "nat option" "string list"
  | SkipNoLabel "nat option" "string list"
  | ProjectURL string
  | ProjectOwner "string option"
  | ProjectNumber "nat option"
  | ProjectOwnerType "string option"
  | ProjectNodeID "string option"
  | ContentID "string option"
  | CreatingProjectItem
  | CreatingDraftIssue
  | StatusFieldOverride string
  | SkippingStatusUpdate
  | OverridingStatus
  | StatusFieldID "string option"
  | StatusOptionID "string option"

datatype event =
    Debug message
  | Info message
  | Graphql request
  | SetOutput string string

datatype error =
    InvalidProjectURL string
  | UnsupportedOwnerType "string option"
  | ProjectIdUndefined
  | ProjectOwnerNameUndefined
  | InvalidStatusOption string
  | RequestError string

section \<open>Effects\<close>

text \<open>
  A run threads the state of the remote service (\<open>world\<close>, of any type) and appends what it
  does to a \<open>trace\<close>: log lines, GraphQL requests and outputs, in program order. An action
  returns a value or throws; a throw ends the run with the state reached so far.
\<close>

record 'w st =
  world :: 'w
  trace :: "event list"

datatype 'a outcome = Returns 'a | Throws error

type_synonym ('w, 'a) action = "'w st \<Rightarrow> 'a outcome \<times> 'w st"

definition thenDo :: "('w, 'a) action \<Rightarrow> ('a \<Rightarrow> ('w, 'b) action) \<Rightarrow> ('w, 'b) action" where
  "thenDo m f s =
     (case m s of
        (Returns x, s') \<Rightarrow> f x s'
      | (Throws e, s') \<Rightarrow> (Throws e, s'))"

definition return :: "'a \<Rightarrow> ('w, 'a) action" where
  "return x s = (Returns x, s)"

definition throw :: "error \<Rightarrow> ('w, 'a) action" where
  "throw e s = (Throws e, s)"

definition emit :: "event \<Rightarrow> ('w, unit) action" where
  "emit ev s = (Returns (), s\<lparr>trace := trace s @ [ev]\<rparr>)"

text \<open>\<open>await octokit.graphql<T>(...)\<close>: the request is sent (and recorded), the service moves
  to its next state, and the call returns the response or throws the service's error.\<close>

definition graphql ::
  "(request \<Rightarrow> 'w \<Rightarrow> (string + 'r) \<times> 'w) \<Rightarrow> request \<Rightarrow> ('w, 'r) action" where
  "graphql op rq s =
     (case op rq (world s) of
        (Inl err, w') \<Rightarrow> (Throws (RequestError err), \<lparr>world = w', trace = trace s @ [Graphql rq]\<rparr>)
      | (Inr resp, w') \<Rightarrow> (Returns resp, \<lparr>world = w', trace = trace s @ [Graphql rq]\<rparr>))"

text \<open>The client: one operation of the service per GraphQL document of the program. The
  add mutations answer with the new item's id, the update mutation with \<open>updatedAt\<close>.\<close>

record 'w octokit =
  getProject :: "request \<Rightarrow> 'w \<Rightarrow> (string + ProjectNodeIDResponse) \<times> 'w"
  addIssueToProject :: "request \<Rightarrow> 'w \<Rightarrow> (string + string) \<times> 'w"
  addDraftIssueToProject :: "request \<Rightarrow> 'w \<Rightarrow> (string + string) \<times> 'w"
  getStatusFieldId :: "request \<Rightarrow> 'w \<Rightarrow> (string + ProjectV2FieldIDResponse) \<times> 'w"
  updateStatusFieldValue :: "request \<Rightarrow> 'w \<Rightarrow> (string + string) \<times> 'w"

definition lift :: "error + 'a \<Rightarrow> ('w, 'a) action" where
  "lift r = (case r of Inl e \<Rightarrow> throw e | Inr x \<Rightarrow> return x)"

section \<open>The program\<close>

text \<open>\<open>mustGetOwnerTypeQuery(ownerType?: string)\<close>: the query root for an owner type, or the
  error \<open>Unsupported ownerType\<close>.\<close>

definition mustGetOwnerTypeQuery :: "string option \<Rightarrow> error + OwnerQueryTypes" where
  "mustGetOwnerTypeQuery ownerType =
     (let ownerTypeQuery =
            (if ownerType = Some ''orgs'' then Some Organization
             else if ownerType = Some ''users'' then Some User
             else None)
      in case ownerTypeQuery of
           None \<Rightarrow> Inl (UnsupportedOwnerType ownerType)
         | Some q \<Rightarrow> Inr q)"

text \<open>\<open>updateStatusFieldValueOnCard\<close>, statement by statement: the debug line, the early return
  on an empty override, the field-id query, the search of the option by name with \<open>find\<close>
  (the first match) in \<open>options || []\<close>, the two debug lines, the error on no match, the
  update mutation.\<close>

definition updateStatusFieldValueOnCard ::
  "inputs \<Rightarrow> 'w octokit \<Rightarrow> OwnerQueryTypes \<Rightarrow> string \<Rightarrow> nat option \<Rightarrow> string \<Rightarrow> string
     \<Rightarrow> ('w, unit) action" where
  "updateStatusFieldValueOnCard inp octokit projectOwnerTypeQuery projectOwnerName projectNumber
       projectId itemId =
     (let statusFieldOverride = input_status_override inp in
      thenDo (emit (Debug (StatusFieldOverride statusFieldOverride))) (\<lambda>_.
      if length statusFieldOverride = 0 then emit (Info SkippingStatusUpdate)
      else
      thenDo (emit (Info OverridingStatus)) (\<lambda>_.
      thenDo (graphql (getStatusFieldId octokit)
                (GetStatusFieldId projectOwnerTypeQuery projectOwnerName projectNumber))
        (\<lambda>statusFieldIdResp.
      let statusFieldId = map_option field_id (atOwner statusFieldIdResp projectOwnerTypeQuery);
          requiredOptionId =
            map_option option_id
              (find (\<lambda>option. option_name option = statusFieldOverride)
                 (case atOwner statusFieldIdResp projectOwnerTypeQuery of
                    None \<Rightarrow> []
                  | Some f \<Rightarrow> (case options f of None \<Rightarrow> [] | Some os \<Rightarrow> os)))
      in
      thenDo (emit (Debug (StatusFieldID statusFieldId))) (\<lambda>_.
      thenDo (emit (Debug (StatusOptionID requiredOptionId))) (\<lambda>_.
      case requiredOptionId of
        None \<Rightarrow> throw (InvalidStatusOption statusFieldOverride)
      | Some fieldOptionId \<Rightarrow>
      thenDo (graphql (updateStatusFieldValue octokit)
                (UpdateProjectV2ItemFieldValue projectId itemId statusFieldId fieldOptionId))
        (\<lambda>updateStatusFieldResp. return ())))))))"

text \<open>The label filter of \<open>addToProject\<close> (the \<open>if\<close> on \<open>labelOperator\<close>): the log line of
  the branch that skips the issue, or \<open>None\<close> when the run goes on. \<open>every\<close>, \<open>some\<close> and
  \<open>includes\<close> are \<open>list_all\<close>, \<open>list_ex\<close> and membership in the list.\<close>

definition labelFilter ::
  "string \<Rightarrow> string list \<Rightarrow> string list \<Rightarrow> nat option \<Rightarrow> message option" where
  "labelFilter labelOperator labeled issueLabels issueNumber =
     (if labelOperator = ''and'' then
        (if \<not> list_all (\<lambda>l. l \<in> set issueLabels) labeled
         then Some (SkipNotAllLabels issueNumber labeled) else None)
      else if labelOperator = ''not'' then
        (if length labeled > 0 \<and> list_ex (\<lambda>l. l \<in> set labeled) issueLabels
         then Some (SkipHasLabel issueNumber labeled) else None)
      else
        (if length labeled > 0 \<and> \<not> list_ex (\<lambda>l. l \<in> set labeled) issueLabels
         then Some (SkipNoLabel issueNumber labeled) else None))"

text \<open>\<open>addToProject\<close>, statement by statement, on the platform \<open>js\<close>. \<open>issue ?? pull_request\<close>
  and the \<open>?.\<close> reads are case distinctions on optional values; \<open>===\<close> on two values that may
  be undefined is equality of optional strings. The last two tests are those on \<open>projectId\<close>
  and \<open>projectOwnerName\<close> after the mutation.\<close>

definition addToProject ::
  "builtins \<Rightarrow> inputs \<Rightarrow> payload \<Rightarrow> 'w octokit \<Rightarrow> ('w, unit) action" where
  "addToProject js inp ctx octokit =
     (let projectUrl = input_project_url inp;
          labeled =
            filter (\<lambda>l. length l > 0)
              (map (\<lambda>l. b_toLowerCase js (b_trim js l)) (split CHR '','' (input_labeled inp)));
          labelOperator = b_toLocaleLowerCase js (b_trim js (input_label_operator inp));
          issue = (case payload_issue ctx of Some i \<Rightarrow> Some i | None \<Rightarrow> payload_pull_request ctx);
          issueLabels =
            map (b_toLowerCase js)
              (case issue of
                 None \<Rightarrow> []
               | Some i \<Rightarrow> (case labels i of None \<Rightarrow> [] | Some ls \<Rightarrow> ls));
          issueOwnerName = map_option owner_login (payload_repository ctx)
      in
      thenDo (emit (Debug (IssueOwner issueOwnerName))) (\<lambda>_.
      case labelFilter labelOperator labeled issueLabels (map_option number issue) of
        Some skipping \<Rightarrow> emit (Info skipping)
      | None \<Rightarrow>
      thenDo (emit (Debug (ProjectURL projectUrl))) (\<lambda>_.
      case urlParse projectUrl of
        None \<Rightarrow> throw (InvalidProjectURL projectUrl)
      | Some urlMatch \<Rightarrow>
      let projectOwnerName = Some (group_ownerName urlMatch);
          projectNumber = b_parseInt js (group_projectNumber urlMatch);
          ownerType = Some (group_ownerType urlMatch)
      in
      thenDo (lift (mustGetOwnerTypeQuery ownerType)) (\<lambda>ownerTypeQuery.
      thenDo (emit (Debug (ProjectOwner projectOwnerName))) (\<lambda>_.
      thenDo (emit (Debug (ProjectNumber projectNumber))) (\<lambda>_.
      thenDo (emit (Debug (ProjectOwnerType ownerType))) (\<lambda>_.
      thenDo (graphql (getProject octokit)
                (GetProject ownerTypeQuery projectOwnerName projectNumber))
        (\<lambda>idResp.
      let projectId = map_option projectV2_id (atOwner idResp ownerTypeQuery);
          contentId = Option.bind issue node_id
      in
      thenDo (emit (Debug (ProjectNodeID projectId))) (\<lambda>_.
      thenDo (emit (Debug (ContentID contentId))) (\<lambda>_.
      thenDo
        (if issueOwnerName = projectOwnerName then
           thenDo (emit (Info CreatingProjectItem)) (\<lambda>_.
           thenDo (graphql (addIssueToProject octokit)
                     (AddProjectV2ItemById projectId contentId))
             (\<lambda>itemId.
           thenDo (emit (SetOutput ''itemId'' itemId)) (\<lambda>_.
           return itemId)))
         else
           thenDo (emit (Info CreatingDraftIssue)) (\<lambda>_.
           thenDo (graphql (addDraftIssueToProject octokit)
                     (AddProjectV2DraftIssue projectId (Option.bind issue html_url)))
             (\<lambda>itemId.
           thenDo (emit (SetOutput ''itemId'' itemId)) (\<lambda>_.
           return itemId))))
        (\<lambda>itemId.
      case projectId of
        None \<Rightarrow> throw ProjectIdUndefined
      | Some projectId \<Rightarrow>
      (case projectOwnerName of
        None \<Rightarrow> throw ProjectOwnerNameUndefined
      | Some projectOwnerName \<Rightarrow>
      updateStatusFieldValueOnCard inp octokit ownerTypeQuery projectOwnerName projectNumber
        projectId itemId))))))))))))"

section \<open>Values and stages of a run\<close>

text \<open>The values \<open>addToProject\<close> computes before the label filter, each under the name the
  program gives it.\<close>

definition labeledOf :: "builtins \<Rightarrow> inputs \<Rightarrow> string list" where
  "labeledOf js inp =
     filter (\<lambda>l. length l > 0)
       (map (\<lambda>l. b_toLowerCase js (b_trim js l)) (split CHR '','' (input_labeled inp)))"

definition labelOperatorOf :: "builtins \<Rightarrow> inputs \<Rightarrow> string" where
  "labelOperatorOf js inp = b_toLocaleLowerCase js (b_trim js (input_label_operator inp))"

definition issueOf :: "payload \<Rightarrow> webhook_issue option" where
  "issueOf ctx = (case payload_issue ctx of Some i \<Rightarrow> Some i | None \<Rightarrow> payload_pull_request ctx)"

definition issueLabelNames :: "payload \<Rightarrow> string list" where
  "issueLabelNames ctx =
     (case issueOf ctx of
        None \<Rightarrow> []
      | Some i \<Rightarrow> (case labels i of None \<Rightarrow> [] | Some ls \<Rightarrow> ls))"

definition issueLabelsOf :: "builtins \<Rightarrow> payload \<Rightarrow> string list" where
  "issueLabelsOf js ctx = map (b_toLowerCase js) (issueLabelNames ctx)"

definition issueOwnerNameOf :: "payload \<Rightarrow> string option" where
  "issueOwnerNameOf ctx = map_option owner_login (payload_repository ctx)"

text \<open>The outcome of the label filter in a run: the log line of the skip, or \<open>None\<close>.\<close>

definition skipLine :: "builtins \<Rightarrow> inputs \<Rightarrow> payload \<Rightarrow> message option" where
  "skipLine js inp ctx =
     labelFilter (labelOperatorOf js inp) (labeledOf js inp) (issueLabelsOf js ctx)
       (map_option number (issueOf ctx))"

text \<open>The two log lines of a run that passes the filter, and the three after the URL is parsed.\<close>

definition preamble :: "inputs \<Rightarrow> payload \<Rightarrow> event list" where
  "preamble inp ctx =
     [Debug (IssueOwner (issueOwnerNameOf ctx)), Debug (ProjectURL (input_project_url inp))]"

definition resolved :: "builtins \<Rightarrow> groups \<Rightarrow> event list" where
  "resolved js g =
     [Debug (ProjectOwner (Some (group_ownerName g))),
      Debug (ProjectNumber (b_parseInt js (group_projectNumber g))),
      Debug (ProjectOwnerType (Some (group_ownerType g)))]"

text \<open>The project-id query of a run and the \<open>projectId\<close> read from its response.\<close>

definition getProjectRequest :: "builtins \<Rightarrow> groups \<Rightarrow> OwnerQueryTypes \<Rightarrow> request" where
  "getProjectRequest js g q =
     GetProject q (Some (group_ownerName g)) (b_parseInt js (group_projectNumber g))"

definition projectIdOf :: "ProjectNodeIDResponse \<Rightarrow> OwnerQueryTypes \<Rightarrow> string option" where
  "projectIdOf idResp ownerTypeQuery = map_option projectV2_id (atOwner idResp ownerTypeQuery)"

text \<open>The \<open>if (issueOwnerName === projectOwnerName)\<close> statement of \<open>addToProject\<close>, which
  yields \<open>itemId\<close>, and the statements after it, as actions of their own; lemma
  \<open>addToProject_goodUrl\<close> shows that \<open>addToProject\<close> runs them in this order.\<close>

definition addItem ::
  "'w octokit \<Rightarrow> string option \<Rightarrow> string option \<Rightarrow> string option \<Rightarrow> webhook_issue option
     \<Rightarrow> ('w, string) action" where
  "addItem octokit issueOwnerName projectOwnerName projectId issue =
     (if issueOwnerName = projectOwnerName then
        thenDo (emit (Info CreatingProjectItem)) (\<lambda>_.
        thenDo (graphql (addIssueToProject octokit)
                  (AddProjectV2ItemById projectId (Option.bind issue node_id)))
          (\<lambda>itemId.
        thenDo (emit (SetOutput ''itemId'' itemId)) (\<lambda>_.
        return itemId)))
      else
        thenDo (emit (Info CreatingDraftIssue)) (\<lambda>_.
        thenDo (graphql (addDraftIssueToProject octokit)
                  (AddProjectV2DraftIssue projectId (Option.bind issue html_url)))
          (\<lambda>itemId.
        thenDo (emit (SetOutput ''itemId'' itemId)) (\<lambda>_.
        return itemId))))"

definition finish ::
  "inputs \<Rightarrow> 'w octokit \<Rightarrow> OwnerQueryTypes \<Rightarrow> string option \<Rightarrow> nat option \<Rightarrow> string option
     \<Rightarrow> string \<Rightarrow> ('w, unit) action" where
  "finish inp octokit ownerTypeQuery projectOwnerName projectNumber projectId itemId =
     (case projectId of
        None \<Rightarrow> throw ProjectIdUndefined
      | Some projectId \<Rightarrow>
          (case projectOwnerName of
             None \<Rightarrow> throw ProjectOwnerNameUndefined
           | Some projectOwnerName \<Rightarrow>
               updateStatusFieldValueOnCard inp octokit ownerTypeQuery projectOwnerName
                 projectNumber projectId itemId))"

text \<open>A run from the start, on the platform \<open>js\<close>: the service in state \<open>w\<close>, nothing done
  yet.\<close>

definition run ::
  "builtins \<Rightarrow> inputs \<Rightarrow> payload \<Rightarrow> 'w octokit \<Rightarrow> 'w \<Rightarrow> unit outcome \<times> 'w st" where
  "run js inp ctx octokit w = addToProject js inp ctx octokit \<lparr>world = w, trace = []\<rparr>"

section \<open>Observations on a trace\<close>

definition requests :: "event list \<Rightarrow> request list" where
  "requests t = concat (map (\<lambda>ev. case ev of Graphql rq \<Rightarrow> [rq] | _ \<Rightarrow> []) t)"

definition outputs :: "event list \<Rightarrow> (string \<times> string) list" where
  "outputs t = concat (map (\<lambda>ev. case ev of SetOutput k v \<Rightarrow> [(k, v)] | _ \<Rightarrow> []) t)"

text \<open>The run got past the label filter: it logged the project URL, the first statement after
  the filter.\<close>

definition reachedProjectUrl :: "event list \<Rightarrow> bool" where
  "reachedProjectUrl t = list_ex (\<lambda>ev. case ev of Debug (ProjectURL _) \<Rightarrow> True | _ \<Rightarrow> False) t"

text \<open>The run returned with no side effect: no throw, no request, the service untouched, no
  output.\<close>

definition skippedCleanly :: "unit outcome \<times> 'w st \<Rightarrow> 'w \<Rightarrow> bool" where
  "skippedCleanly r w =
     (fst r = Returns () \<and> world (snd r) = w \<and> requests (trace (snd r)) = [] \<and>
      outputs (trace (snd r)) = [])"

text \<open>The options \<open>updateStatusFieldValueOnCard\<close> searches: those of the field under the
  owner's key of the response, none when the key or the option list is absent.\<close>

definition statusOptions :: "ProjectV2FieldIDResponse \<Rightarrow> OwnerQueryTypes \<Rightarrow> field_option list" where
  "statusOptions statusFieldIdResp projectOwnerTypeQuery =
     (case atOwner statusFieldIdResp projectOwnerTypeQuery of
        None \<Rightarrow> []
      | Some f \<Rightarrow> (case options f of None \<Rightarrow> [] | Some os \<Rightarrow> os))"

definition isAddMutation :: "event \<Rightarrow> bool" where
  "isAddMutation ev =
     (case ev of
        Graphql (AddProjectV2ItemById _ _) \<Rightarrow> True
      | Graphql (AddProjectV2DraftIssue _ _) \<Rightarrow> True
      | _ \<Rightarrow> False)"

text \<open>Every event an action appends satisfies \<open>P\<close>, and every error it throws satisfies \<open>E\<close>.\<close>

definition behaves :: "(event \<Rightarrow> bool) \<Rightarrow> (error \<Rightarrow> bool) \<Rightarrow> ('w, 'a) action \<Rightarrow> bool" where
  "behaves P E m =
     (\<forall>s. (\<exists>evs. trace (snd (m s)) = trace s @ evs \<and> list_all P evs) \<and>
          (\<forall>e. fst (m s) = Throws e \<longrightarrow> E e))"

section \<open>The specification's wording\<close>

text \<open>The label filter as the specification words it, on the configured label list, the
  operator and the label set of the issue: \<open>and\<close> wants every configured label on the issue,
  \<open>not\<close> wants none of them, and any other operator wants no label configured or at least
  one of them on the issue.\<close>

definition labelsMatch :: "string \<Rightarrow> string list \<Rightarrow> string list \<Rightarrow> bool" where
  "labelsMatch operator configured issueLabels =
     (if operator = ''and'' then set configured \<subseteq> set issueLabels
      else if operator = ''not'' then set configured \<inter> set issueLabels = {}
      else configured = [] \<or> set configured \<inter> set issueLabels \<noteq> {})"

text \<open>The format \<open>[https://]github.com/(orgs|users)/<owner>/projects/<number>\<close> with anything
  after it: the conditions on the parts, and the string they make.\<close>

definition projectUrlShape :: "string \<Rightarrow> string \<Rightarrow> string \<Rightarrow> string \<Rightarrow> bool" where
  "projectUrlShape pre ot on pn =
     ((pre = [] \<or> pre = ''https://'') \<and> (ot = ''orgs'' \<or> ot = ''users'') \<and>
      on \<noteq> [] \<and> list_all (\<lambda>c. c \<noteq> CHR ''/'') on \<and> pn \<noteq> [] \<and> list_all isDigit pn)"

definition projectUrl :: "string \<Rightarrow> string \<Rightarrow> string \<Rightarrow> string \<Rightarrow> string \<Rightarrow> string" where
  "projectUrl pre ot on pn rest = pre @ ''github.com/'' @ ot @ ''/'' @ on @ ''/projects/'' @ pn @ rest"

section \<open>Assumptions on the platform\<close>

text \<open>
  The platform does on ASCII strings what the ASCII fragment says: \<open>trim\<close> and \<open>toLowerCase\<close> on
  every ASCII string, and \<open>toLocaleLowerCase\<close> on every ASCII string without the letter \<open>I\<close>,
  the one ASCII letter that a locale (Turkish, Azeri) lower-cases in a way of its own.
\<close>

definition agreesOnAscii :: "builtins \<Rightarrow> bool" where
  "agreesOnAscii js =
     (\<forall>s. isAscii s \<longrightarrow>
        b_trim js s = trim s \<and> b_toLowerCase js s = toLowerCase s \<and>
        (CHR ''I'' \<notin> set s \<longrightarrow> b_toLocaleLowerCase js s = toLowerCase s))"

text \<open>
  \<open>parseInt\<close> is exact on a string of decimal digits that denotes a number up to \<open>2^53\<close>, the
  range in which a JavaScript number holds every integer. The number a digit string denotes is
  written with \<open>horner_sum\<close> of the library, on the digits from the last to the first.
\<close>

definition parsesSafeIntegers :: "builtins \<Rightarrow> bool" where
  "parsesSafeIntegers js =
     (\<forall>ds. ds \<noteq> [] \<and> list_all isDigit ds \<and>
           horner_sum (\<lambda>c. of_char c - 48) (10 :: nat) (rev ds) \<le> 2 ^ 53 \<longrightarrow>
           b_parseInt js ds = Some (horner_sum (\<lambda>c. of_char c - 48) 10 (rev ds)))"

section \<open>Example inputs\<close>

text \<open>Inputs, a payload with one issue, and a service that answers every request and counts
  them.\<close>

definition exInputs :: "string \<Rightarrow> string \<Rightarrow> string \<Rightarrow> string \<Rightarrow> inputs" where
  "exInputs url ls op ov =
     \<lparr>input_project_url = url, input_github_token = ''token'', input_labeled = ls,
      input_label_operator = op, input_status_override = ov\<rparr>"

definition exPayload :: "string list \<Rightarrow> string \<Rightarrow> payload" where
  "exPayload ls owner =
     \<lparr>payload_issue =
        Some \<lparr>number = 1, labels = Some ls,
              html_url = Some (''https://github.com/'' @ owner @ ''/repo/issues/1''),
              node_id = Some ''I_1''\<rparr>,
      payload_pull_request = None,
      payload_repository = Some \<lparr>owner_login = owner\<rparr>\<rparr>"

definition exOctokit :: "ProjectNodeIDResponse \<Rightarrow> ProjectV2FieldIDResponse \<Rightarrow> nat octokit" where
  "exOctokit idResp fieldResp =
     \<lparr>getProject = (\<lambda>rq w. (Inr idResp, Suc w)),
      addIssueToProject = (\<lambda>rq w. (Inr ''PVTI_1'', Suc w)),
      addDraftIssueToProject = (\<lambda>rq w. (Inr ''PVTI_2'', Suc w)),
      getStatusFieldId = (\<lambda>rq w. (Inr fieldResp, Suc w)),
      updateStatusFieldValue = (\<lambda>rq w. (Inr ''2024-01-01T00:00:00Z'', Suc w))\<rparr>"

section \<open>Lemmas on strings and the URL expression\<close>

lemmas string_defs =
  trim_def toLowerCase_def toLowerChar_def isWhiteSpace_def isDigit_def asciiBuiltins_def

lemma stripPrefix_Some: "stripPrefix p s = Some r \<longleftrightarrow> s = p @ r"
  by (induction p s rule: stripPrefix.induct) auto

lemma stripPrefix_append: "stripPrefix p (p @ r) = Some r"
  by (simp add: stripPrefix_Some)

lemma matchOwnerType_Some:
  "matchOwnerType s = Some (ot, r) \<longleftrightarrow> (ot = ''orgs'' \<or> ot = ''users'') \<and> s = ot @ r"
  by (auto simp: matchOwnerType_def stripPrefix_Some split: option.splits)

lemma takeWhile_maximal:
  "list_all P xs \<Longrightarrow> ys = [] \<or> \<not> P (hd ys) \<Longrightarrow> takeWhile P (xs @ ys) = xs"
  by (cases ys) (auto simp: list_all_iff)

lemma dropWhile_maximal:
  "list_all P xs \<Longrightarrow> ys = [] \<or> \<not> P (hd ys) \<Longrightarrow> dropWhile P (xs @ ys) = ys"
  by (cases ys) (auto simp: list_all_iff)

lemma urlParse_shape:
  assumes "projectUrlShape pre ot on pn"
  shows "urlParse (projectUrl pre ot on pn rest) =
    Some \<lparr>group_ownerType = ot, group_ownerName = on, group_projectNumber = pn @ takeWhile isDigit rest\<rparr>"
proof -
  let ?tail = "ot @ ''/'' @ on @ ''/projects/'' @ pn @ rest"
  have s0: "(case stripPrefix ''https://'' (projectUrl pre ot on pn rest) of Some r \<Rightarrow> r | None \<Rightarrow> projectUrl pre ot on pn rest)
            = ''github.com/'' @ ?tail"
    using assms by (auto simp: projectUrlShape_def projectUrl_def)
  have s1: "stripPrefix ''github.com/'' (''github.com/'' @ ?tail) = Some ?tail"
    by (rule stripPrefix_append)
  have s2: "matchOwnerType ?tail = Some (ot, ''/'' @ on @ ''/projects/'' @ pn @ rest)"
    using assms by (simp add: matchOwnerType_Some projectUrlShape_def)
  have s3: "stripPrefix ''/'' (''/'' @ on @ ''/projects/'' @ pn @ rest) = Some (on @ ''/projects/'' @ pn @ rest)"
    by (rule stripPrefix_append)
  have on: "takeWhile (\<lambda>c. c \<noteq> CHR ''/'') (on @ ''/projects/'' @ pn @ rest) = on"
    using assms by (intro takeWhile_maximal) (simp_all add: projectUrlShape_def)
  have dr: "dropWhile (\<lambda>c. c \<noteq> CHR ''/'') (on @ ''/projects/'' @ pn @ rest) = ''/projects/'' @ pn @ rest"
    using assms by (intro dropWhile_maximal) (simp_all add: projectUrlShape_def)
  have s4: "stripPrefix ''/projects/'' (''/projects/'' @ pn @ rest) = Some (pn @ rest)"
    by (rule stripPrefix_append)
  have pn: "takeWhile isDigit (pn @ rest) = pn @ takeWhile isDigit rest"
    using assms by (simp add: projectUrlShape_def list_all_iff)
  have ne: "on \<noteq> []" "pn \<noteq> []" using assms by (simp_all add: projectUrlShape_def)
  show ?thesis
    unfolding urlParse_def s0 Let_def s1 option.case s2 prod.case s3 on dr s4 pn
    using ne by simp
qed

lemma urlParse_Some_shape:
  assumes "urlParse s = Some g"
  shows "\<exists>pre rest. projectUrlShape pre (group_ownerType g) (group_ownerName g) (group_projectNumber g)
           \<and> s = projectUrl pre (group_ownerType g) (group_ownerName g) (group_projectNumber g) rest
           \<and> (rest = [] \<or> \<not> isDigit (hd rest))"
proof -
  define s0 where "s0 = (case stripPrefix ''https://'' s of Some r \<Rightarrow> r | None \<Rightarrow> s)"
  have pre: "\<exists>pre. (pre = [] \<or> pre = ''https://'') \<and> s = pre @ s0"
    unfolding s0_def by (cases "stripPrefix ''https://'' s") (auto simp: stripPrefix_Some)
  from assms obtain s1 ot s2 s3 s4 where
    1: "stripPrefix ''github.com/'' s0 = Some s1" and
    2: "matchOwnerType s1 = Some (ot, s2)" and
    3: "stripPrefix ''/'' s2 = Some s3" and
    on: "takeWhile (\<lambda>c. c \<noteq> CHR ''/'') s3 \<noteq> []" and
    4: "stripPrefix ''/projects/'' (dropWhile (\<lambda>c. c \<noteq> CHR ''/'') s3) = Some s4" and
    pn: "takeWhile isDigit s4 \<noteq> []" and
    g: "g = \<lparr>group_ownerType = ot, group_ownerName = takeWhile (\<lambda>c. c \<noteq> CHR ''/'') s3,
              group_projectNumber = takeWhile isDigit s4\<rparr>"
    unfolding urlParse_def s0_def [symmetric] Let_def
    by (auto split: option.splits if_splits)
  have s3: "s3 = takeWhile (\<lambda>c. c \<noteq> CHR ''/'') s3 @ ''/projects/'' @ takeWhile isDigit s4 @ dropWhile isDigit s4"
    using 4 takeWhile_dropWhile_id [of "\<lambda>c. c \<noteq> CHR ''/''" s3] takeWhile_dropWhile_id [of isDigit s4]
    by (simp add: stripPrefix_Some)
  have rest: "dropWhile isDigit s4 = [] \<or> \<not> isDigit (hd (dropWhile isDigit s4))"
    using hd_dropWhile [of isDigit s4] by blast
  have all1: "list_all (\<lambda>c. c \<noteq> CHR ''/'') (takeWhile (\<lambda>c. c \<noteq> CHR ''/'') s3)"
    by (auto simp: list_all_iff dest: set_takeWhileD)
  have all2: "list_all isDigit (takeWhile isDigit s4)"
    by (auto simp: list_all_iff dest: set_takeWhileD)
  from pre obtain pre where p: "pre = [] \<or> pre = ''https://''" "s = pre @ s0" by blast
  have s0: "s0 = ''github.com/'' @ ot @ ''/'' @ s3" and ot: "ot = ''orgs'' \<or> ot = ''users''"
    using 1 2 3 by (auto simp: stripPrefix_Some matchOwnerType_Some)
  have shape: "projectUrlShape pre ot (takeWhile (\<lambda>c. c \<noteq> CHR ''/'') s3) (takeWhile isDigit s4)"
    unfolding projectUrlShape_def using p(1) ot on pn all1 all2 by blast
  have eq: "s = projectUrl pre ot (takeWhile (\<lambda>c. c \<noteq> CHR ''/'') s3) (takeWhile isDigit s4)
                 (dropWhile isDigit s4)"
    unfolding projectUrl_def p(2) s0 using s3 by simp
  show ?thesis
    unfolding g using shape eq rest by (intro exI [of _ pre] exI [of _ "dropWhile isDigit s4"]) simp
qed

lemma urlParse_ownerType:
  assumes "urlParse s = Some g"
  shows "group_ownerType g = ''orgs'' \<or> group_ownerType g = ''users''"
  using urlParse_Some_shape [OF assms] unfolding projectUrlShape_def by blast

lemma mustGetOwnerTypeQuery_parsed:
  assumes "urlParse s = Some g"
  shows "mustGetOwnerTypeQuery (Some (group_ownerType g)) =
           Inr (if group_ownerType g = ''orgs'' then Organization else User)"
  using urlParse_ownerType [OF assms] by (auto simp: mustGetOwnerTypeQuery_def)

section \<open>Lemmas on actions\<close>

lemma thenDo_emit [simp]: "thenDo (emit ev) f s = f () (s\<lparr>trace := trace s @ [ev]\<rparr>)"
  by (simp add: thenDo_def emit_def)

lemma thenDo_return [simp]: "thenDo (return x) f s = f x s"
  by (simp add: thenDo_def return_def)

lemma thenDo_throw [simp]: "thenDo (throw e) f s = (Throws e, s)"
  by (simp add: thenDo_def throw_def)

lemma thenDo_graphql:
  "thenDo (graphql op rq) f s =
     (case op rq (world s) of
        (Inl err, w') \<Rightarrow> (Throws (RequestError err), \<lparr>world = w', trace = trace s @ [Graphql rq]\<rparr>)
      | (Inr resp, w') \<Rightarrow> f resp \<lparr>world = w', trace = trace s @ [Graphql rq]\<rparr>)"
  by (simp add: thenDo_def graphql_def split: prod.splits sum.splits)

lemma behaves_return: "behaves P E (return x)"
  by (simp add: behaves_def return_def)

lemma behaves_throw: "E e \<Longrightarrow> behaves P E (throw e)"
  by (simp add: behaves_def throw_def)

lemma behaves_emit: "P ev \<Longrightarrow> behaves P E (emit ev)"
  by (simp add: behaves_def emit_def)

lemma behaves_graphql: "P (Graphql rq) \<Longrightarrow> (\<And>err. E (RequestError err)) \<Longrightarrow> behaves P E (graphql op rq)"
  by (auto simp: behaves_def graphql_def split: prod.splits sum.splits)

lemma behaves_thenDo:
  assumes m: "behaves P E m" and f: "\<And>x. behaves P E (f x)"
  shows "behaves P E (thenDo m f)"
proof -
  have "(\<exists>evs. trace (snd (thenDo m f s)) = trace s @ evs \<and> list_all P evs) \<and>
        (\<forall>e. fst (thenDo m f s) = Throws e \<longrightarrow> E e)" for s
  proof -
    obtain r s' where ms: "m s = (r, s')" by (cases "m s")
    from m obtain evs where evs: "trace s' = trace s @ evs" "list_all P evs"
      and thr: "\<And>e. r = Throws e \<Longrightarrow> E e"
      unfolding behaves_def using ms by (metis fst_conv snd_conv)
    show ?thesis
    proof (cases r)
      case (Returns x)
      from f [of x] obtain evs' where evs': "trace (snd (f x s')) = trace s' @ evs'" "list_all P evs'"
        and thr': "\<And>e. fst (f x s') = Throws e \<Longrightarrow> E e"
        unfolding behaves_def by blast
      have "thenDo m f s = f x s'" using ms Returns by (simp add: thenDo_def)
      with evs evs' thr' show ?thesis
        by (auto intro: exI [of _ "evs @ evs'"])
    next
      case (Throws e)
      have "thenDo m f s = (Throws e, s')" using ms Throws by (simp add: thenDo_def)
      with evs thr Throws show ?thesis by auto
    qed
  qed
  then show ?thesis unfolding behaves_def by blast
qed

lemma behaves_lift: "(\<And>e. r = Inl e \<Longrightarrow> E e) \<Longrightarrow> behaves P E (lift r)"
  by (cases r) (simp_all add: lift_def behaves_return behaves_throw)

lemmas behaves_intros =
  behaves_thenDo behaves_return behaves_throw behaves_emit behaves_graphql

lemma behaves_trace:
  assumes "behaves P E m"
  shows "\<exists>evs. trace (snd (m s)) = trace s @ evs \<and> list_all P evs"
  using assms unfolding behaves_def by blast

lemma behaves_throws:
  assumes "behaves P E m" "fst (m s) = Throws e"
  shows "E e"
  using assms unfolding behaves_def by blast

lemma requests_simps [simp]:
  "requests [] = []"
  "requests (Graphql rq # t) = rq # requests t"
  "requests (Debug m # t) = requests t"
  "requests (Info m # t) = requests t"
  "requests (SetOutput k v # t) = requests t"
  "requests (t @ u) = requests t @ requests u"
  by (simp_all add: requests_def)

lemma outputs_simps [simp]:
  "outputs [] = []"
  "outputs (Graphql rq # t) = outputs t"
  "outputs (Debug m # t) = outputs t"
  "outputs (Info m # t) = outputs t"
  "outputs (SetOutput k v # t) = (k, v) # outputs t"
  "outputs (t @ u) = outputs t @ outputs u"
  by (simp_all add: outputs_def)

lemma reachedProjectUrl_simps [simp]:
  "reachedProjectUrl [] = False"
  "reachedProjectUrl (Debug (ProjectURL u) # t) = True"
  "reachedProjectUrl (Debug (IssueOwner x) # t) = reachedProjectUrl t"
  "reachedProjectUrl (Info m # t) = reachedProjectUrl t"
  "reachedProjectUrl (t @ t') = (reachedProjectUrl t \<or> reachedProjectUrl t')"
  by (simp_all add: reachedProjectUrl_def)

lemma reachedProjectUrl_preamble [simp]: "reachedProjectUrl (preamble inp ctx)"
  by (simp add: preamble_def)

section \<open>The stages of \<open>addToProject\<close>\<close>

lemma updateStatus_behaves:
  assumes "\<And>m. P (Debug m)" "\<And>m. P (Info m)" "\<And>a b c. P (Graphql (GetStatusFieldId a b c))"
    "\<And>a b c d. P (Graphql (UpdateProjectV2ItemFieldValue a b c d))"
    "\<And>x. E (InvalidStatusOption x)" "\<And>x. E (RequestError x)"
  shows "behaves P E (updateStatusFieldValueOnCard inp octokit q on pn pid iid)"
  unfolding updateStatusFieldValueOnCard_def Let_def
  by (auto intro!: behaves_intros assms split: option.splits)

lemma addItem_behaves:
  assumes "\<And>m. P (Info m)" "\<And>a b. P (Graphql (AddProjectV2ItemById a b))"
    "\<And>a b. P (Graphql (AddProjectV2DraftIssue a b))" "\<And>a b. P (SetOutput a b)"
    "\<And>x. E (RequestError x)"
  shows "behaves P E (addItem octokit ion pon pid iss)"
  unfolding addItem_def by (auto intro!: behaves_intros assms)

lemma finish_behaves:
  assumes "\<And>m. P (Debug m)" "\<And>m. P (Info m)" "\<And>a b c. P (Graphql (GetStatusFieldId a b c))"
    "\<And>a b c d. P (Graphql (UpdateProjectV2ItemFieldValue a b c d))"
    "\<And>x. E (InvalidStatusOption x)" "\<And>x. E (RequestError x)"
    "E ProjectIdUndefined" "E ProjectOwnerNameUndefined"
  shows "behaves P E (finish inp octokit q pon pn pid iid)"
  unfolding finish_def
  by (auto intro!: behaves_intros assms updateStatus_behaves split: option.splits)

lemma addToProject_skip:
  assumes "skipLine js inp ctx = Some m"
  shows "addToProject js inp ctx octokit s =
    (Returns (), s\<lparr>trace := trace s @ [Debug (IssueOwner (issueOwnerNameOf ctx)), Info m]\<rparr>)"
  using assms
  unfolding addToProject_def Let_def skipLine_def labeledOf_def labelOperatorOf_def
    issueOf_def issueLabelsOf_def issueLabelNames_def issueOwnerNameOf_def
  by (simp add: emit_def)

lemma addToProject_badUrl:
  assumes "skipLine js inp ctx = None" "urlParse (input_project_url inp) = None"
  shows "addToProject js inp ctx octokit s =
    (Throws (InvalidProjectURL (input_project_url inp)), s\<lparr>trace := trace s @ preamble inp ctx\<rparr>)"
  using assms
  unfolding addToProject_def Let_def skipLine_def labeledOf_def labelOperatorOf_def
    issueOf_def issueLabelsOf_def issueLabelNames_def issueOwnerNameOf_def preamble_def
  by (simp add: throw_def)

lemma addToProject_goodUrl:
  assumes "skipLine js inp ctx = None" "urlParse (input_project_url inp) = Some g"
    "mustGetOwnerTypeQuery (Some (group_ownerType g)) = Inr q"
  shows "addToProject js inp ctx octokit s =
    thenDo (graphql (getProject octokit) (getProjectRequest js g q))
      (\<lambda>idResp.
         thenDo (emit (Debug (ProjectNodeID (projectIdOf idResp q)))) (\<lambda>_.
         thenDo (emit (Debug (ContentID (Option.bind (issueOf ctx) node_id)))) (\<lambda>_.
         thenDo (addItem octokit (issueOwnerNameOf ctx) (Some (group_ownerName g))
                   (projectIdOf idResp q) (issueOf ctx))
           (finish inp octokit q (Some (group_ownerName g)) (b_parseInt js (group_projectNumber g))
              (projectIdOf idResp q)))))
      (s\<lparr>trace := trace s @ preamble inp ctx @ resolved js g\<rparr>)"
  using assms
  unfolding addToProject_def Let_def skipLine_def labeledOf_def labelOperatorOf_def
    issueOf_def issueLabelsOf_def issueLabelNames_def issueOwnerNameOf_def preamble_def
    resolved_def addItem_def finish_def projectIdOf_def getProjectRequest_def
  by (simp add: lift_def)

lemma run_skip:
  assumes "skipLine js inp ctx = Some m"
  shows "run js inp ctx octokit w =
    (Returns (), \<lparr>world = w, trace = [Debug (IssueOwner (issueOwnerNameOf ctx)), Info m]\<rparr>)"
  unfolding run_def addToProject_skip [OF assms] by simp

lemma run_badUrl:
  assumes "skipLine js inp ctx = None" "urlParse (input_project_url inp) = None"
  shows "run js inp ctx octokit w =
    (Throws (InvalidProjectURL (input_project_url inp)), \<lparr>world = w, trace = preamble inp ctx\<rparr>)"
  unfolding run_def addToProject_badUrl [OF assms] by simp

lemma run_goodUrl_trace:
  assumes "skipLine js inp ctx = None" "urlParse (input_project_url inp) = Some g"
    "mustGetOwnerTypeQuery (Some (group_ownerType g)) = Inr q"
  shows "\<exists>evs. trace (snd (run js inp ctx octokit w)) =
           preamble inp ctx @ resolved js g @ Graphql (getProjectRequest js g q) # evs"
proof -
  let ?k = "\<lambda>idResp.
         thenDo (emit (Debug (ProjectNodeID (projectIdOf idResp q)))) (\<lambda>_.
         thenDo (emit (Debug (ContentID (Option.bind (issueOf ctx) node_id)))) (\<lambda>_.
         thenDo (addItem octokit (issueOwnerNameOf ctx) (Some (group_ownerName g))
                   (projectIdOf idResp q) (issueOf ctx))
           (finish inp octokit q (Some (group_ownerName g)) (b_parseInt js (group_projectNumber g))
              (projectIdOf idResp q))))"
  have k: "behaves (\<lambda>_. True) (\<lambda>_. True) (?k idResp)" for idResp
    by (intro behaves_intros addItem_behaves finish_behaves) simp_all
  obtain r w1 where gp: "getProject octokit (getProjectRequest js g q) w = (r, w1)"
    by (cases "getProject octokit (getProjectRequest js g q) w")
  show ?thesis
  proof (cases r)
    case (Inl err)
    with gp show ?thesis
      unfolding run_def addToProject_goodUrl [OF assms] thenDo_graphql by simp
  next
    case (Inr idResp)
    let ?s1 = "\<lparr>world = w1, trace = preamble inp ctx @ resolved js g @ [Graphql (getProjectRequest js g q)]\<rparr>"
    from behaves_trace [OF k, of idResp ?s1] obtain evs where
      "trace (snd (?k idResp ?s1)) = trace ?s1 @ evs"
      by blast
    with gp Inr show ?thesis
      unfolding run_def addToProject_goodUrl [OF assms] thenDo_graphql by simp
  qed
qed

lemma skipLine_None_iff:
  "skipLine js inp ctx = None \<longleftrightarrow>
     labelsMatch (labelOperatorOf js inp) (labeledOf js inp) (issueLabelsOf js ctx)"
  unfolding skipLine_def labelFilter_def labelsMatch_def
  by (auto simp: list_all_iff list_ex_iff)

lemma run_pass:
  assumes "skipLine js inp ctx = None"
  shows "reachedProjectUrl (trace (snd (run js inp ctx octokit w)))"
    and "\<not> skippedCleanly (run js inp ctx octokit w) w"
proof -
  show "reachedProjectUrl (trace (snd (run js inp ctx octokit w)))"
  proof (cases "urlParse (input_project_url inp)")
    case None
    show ?thesis unfolding run_badUrl [OF assms None] by simp
  next
    case (Some g)
    from run_goodUrl_trace [OF assms Some mustGetOwnerTypeQuery_parsed [OF Some], where octokit = octokit and w = w]
    obtain evs where "trace (snd (run js inp ctx octokit w)) =
           preamble inp ctx @ resolved js g @ Graphql (getProjectRequest js g (if group_ownerType g = ''orgs'' then Organization else User)) # evs"
      by blast
    then show ?thesis by simp
  qed
  show "\<not> skippedCleanly (run js inp ctx octokit w) w"
  proof (cases "urlParse (input_project_url inp)")
    case None
    show ?thesis unfolding run_badUrl [OF assms None] by (simp add: skippedCleanly_def)
  next
    case (Some g)
    from run_goodUrl_trace [OF assms Some mustGetOwnerTypeQuery_parsed [OF Some], where octokit = octokit and w = w]
    obtain evs where "trace (snd (run js inp ctx octokit w)) =
           preamble inp ctx @ resolved js g @ Graphql (getProjectRequest js g (if group_ownerType g = ''orgs'' then Organization else User)) # evs"
      by blast
    then show ?thesis by (simp add: skippedCleanly_def)
  qed
qed

lemma run_skipped:
  assumes "skipLine js inp ctx = Some m"
  shows "\<not> reachedProjectUrl (trace (snd (run js inp ctx octokit w)))"
    and "skippedCleanly (run js inp ctx octokit w) w"
  unfolding run_skip [OF assms] by (simp_all add: skippedCleanly_def)

lemma proceeds_iff:
  "reachedProjectUrl (trace (snd (run js inp ctx octokit w))) \<longleftrightarrow>
     labelsMatch (labelOperatorOf js inp) (labeledOf js inp) (issueLabelsOf js ctx)"
  using run_pass(1) [of js inp ctx octokit w] run_skipped(1) [of js inp ctx _ octokit w]
    skipLine_None_iff [of js inp ctx]
  by (cases "skipLine js inp ctx") auto

lemma skips_iff:
  "skippedCleanly (run js inp ctx octokit w) w \<longleftrightarrow>
     \<not> labelsMatch (labelOperatorOf js inp) (labeledOf js inp) (issueLabelsOf js ctx)"
  using run_pass(2) [of js inp ctx octokit w] run_skipped(2) [of js inp ctx _ octokit w]
    skipLine_None_iff [of js inp ctx]
  by (cases "skipLine js inp ctx") auto


section \<open>Lemmas on ASCII strings\<close>

lemma agreesOnAscii_asciiBuiltins: "agreesOnAscii asciiBuiltins"
  by (simp add: agreesOnAscii_def asciiBuiltins_def)

lemma isAscii_subset: "isAscii s \<Longrightarrow> set t \<subseteq> set s \<Longrightarrow> isAscii t"
  by (auto simp: isAscii_def list_all_iff)

lemma set_split_all: "\<forall>p \<in> set (split sep s). set p \<subseteq> set s"
proof (induction s)
  case Nil
  then show ?case by simp
next
  case (Cons c cs)
  show ?case
  proof (cases "split sep cs")
    case Nil
    then show ?thesis by auto
  next
    case (Cons a list)
    with Cons.IH have "set a \<subseteq> set cs" "\<forall>p \<in> set list. set p \<subseteq> set cs" by simp_all
    with Cons show ?thesis by auto
  qed
qed

lemma set_split: "p \<in> set (split sep s) \<Longrightarrow> set p \<subseteq> set s"
  using set_split_all by blast

lemma set_trim: "set (trim s) \<subseteq> set s"
  unfolding trim_def by (auto dest!: set_dropWhileD)

lemma agreesOnAscii_label:
  assumes "agreesOnAscii js" "isAscii p"
  shows "b_toLowerCase js (b_trim js p) = toLowerCase (trim p)"
proof -
  from assms have "b_trim js p = trim p" by (simp add: agreesOnAscii_def)
  moreover have "isAscii (trim p)" using assms(2) set_trim by (rule isAscii_subset)
  ultimately show ?thesis using assms(1) by (simp add: agreesOnAscii_def)
qed

lemma labeledOf_ascii:
  assumes "agreesOnAscii js" "isAscii (input_labeled inp)"
  shows "labeledOf js inp =
    filter (\<lambda>l. length l > 0)
      (map (\<lambda>l. toLowerCase (trim l)) (split CHR '','' (input_labeled inp)))"
proof -
  have "map (\<lambda>l. b_toLowerCase js (b_trim js l)) (split CHR '','' (input_labeled inp)) =
        map (\<lambda>l. toLowerCase (trim l)) (split CHR '','' (input_labeled inp))"
  proof (rule map_cong [OF refl])
    fix p assume "p \<in> set (split CHR '','' (input_labeled inp))"
    then have "isAscii p" using assms(2) set_split isAscii_subset by blast
    then show "b_toLowerCase js (b_trim js p) = toLowerCase (trim p)"
      by (rule agreesOnAscii_label [OF assms(1)])
  qed
  then show ?thesis unfolding labeledOf_def by (rule arg_cong)
qed

lemma issueLabelsOf_ascii:
  assumes "agreesOnAscii js" "list_all isAscii (issueLabelNames ctx)"
  shows "issueLabelsOf js ctx = map toLowerCase (issueLabelNames ctx)"
  using assms by (auto simp: issueLabelsOf_def agreesOnAscii_def list_all_iff)






section \<open>The label filter\<close>

text \<open>
  Claim C2. With the label operator \<open>and\<close> (as read: trimmed and lower-cased), a run gets
  past the label filter if and only if every configured label (trimmed, lower-cased, empty
  entries dropped) is among the lower-cased labels of the issue. This holds on every
  platform, whatever its \<open>trim\<close> and \<open>toLowerCase\<close> do to the labels.
\<close>

theorem and_operator_proceeds_iff_all_labels:
  assumes "labelOperatorOf js inp = ''and''"
  shows "reachedProjectUrl (trace (snd (run js inp ctx octokit w))) \<longleftrightarrow>
           set (labeledOf js inp) \<subseteq> set (issueLabelsOf js ctx)"
  unfolding proceeds_iff labelsMatch_def using assms by simp

text \<open>On the ASCII platform, with \<open>labeled = "Bug, ,help wanted"\<close> and operator \<open>" AND "\<close>, an
  issue labelled \<open>bug\<close>, \<open>Help Wanted\<close> and \<open>x\<close> passes, and an issue labelled \<open>bug\<close> alone does
  not.\<close>

theorem and_operator_witness:
  "labelOperatorOf asciiBuiltins (exInputs ''github.com/users/ann/projects/3'' ''Bug, ,help wanted'' '' AND '' '''') = ''and'' \<and>
   labeledOf asciiBuiltins (exInputs ''github.com/users/ann/projects/3'' ''Bug, ,help wanted'' '' AND '' '''') = [''bug'', ''help wanted''] \<and>
   issueLabelsOf asciiBuiltins (exPayload [''bug'', ''Help Wanted'', ''x''] ''ann'') = [''bug'', ''help wanted'', ''x''] \<and>
   reachedProjectUrl (trace (snd (run
      asciiBuiltins (exInputs ''github.com/users/ann/projects/3'' ''Bug, ,help wanted'' '' AND '' '''')
      (exPayload [''bug'', ''Help Wanted'', ''x''] ''ann'')
      (exOctokit \<lparr>organization = None, user = None\<rparr> \<lparr>organization = None, user = None\<rparr>) 0))) \<and>
   \<not> reachedProjectUrl (trace (snd (run
      asciiBuiltins (exInputs ''github.com/users/ann/projects/3'' ''Bug, ,help wanted'' '' AND '' '''')
      (exPayload [''bug''] ''ann'')
      (exOctokit \<lparr>organization = None, user = None\<rparr> \<lparr>organization = None, user = None\<rparr>) 0)))"
proof -
  let ?inp = "exInputs ''github.com/users/ann/projects/3'' ''Bug, ,help wanted'' '' AND '' ''''"
  have op: "labelOperatorOf asciiBuiltins ?inp = ''and''"
    by (simp add: labelOperatorOf_def exInputs_def string_defs)
  have ls: "labeledOf asciiBuiltins ?inp = [''bug'', ''help wanted'']"
    by (simp add: labeledOf_def exInputs_def string_defs)
  have il: "issueLabelsOf asciiBuiltins (exPayload [''bug'', ''Help Wanted'', ''x''] ''ann'') = [''bug'', ''help wanted'', ''x'']"
    by (simp add: issueLabelsOf_def issueLabelNames_def issueOf_def exPayload_def string_defs)
  have il2: "issueLabelsOf asciiBuiltins (exPayload [''bug''] ''ann'') = [''bug'']"
    by (simp add: issueLabelsOf_def issueLabelNames_def issueOf_def exPayload_def string_defs)
  show ?thesis
    unfolding and_operator_proceeds_iff_all_labels [OF op] op ls il il2 by simp
qed

text \<open>
  Claim C3. With the label operator \<open>not\<close>, a run returns without side effect if and only
  if the configured label list is not empty and has a label in common with the lower-cased
  labels of the issue; otherwise it gets past the label filter. This holds on every
  platform.
\<close>

theorem not_operator_skips_iff_some_label:
  assumes "labelOperatorOf js inp = ''not''"
  shows "(skippedCleanly (run js inp ctx octokit w) w \<longleftrightarrow>
            labeledOf js inp \<noteq> [] \<and> set (labeledOf js inp) \<inter> set (issueLabelsOf js ctx) \<noteq> {}) \<and>
         (reachedProjectUrl (trace (snd (run js inp ctx octokit w))) \<longleftrightarrow>
            \<not> (labeledOf js inp \<noteq> [] \<and> set (labeledOf js inp) \<inter> set (issueLabelsOf js ctx) \<noteq> {}))"
  unfolding proceeds_iff skips_iff labelsMatch_def using assms by auto

text \<open>On the ASCII platform, with \<open>labeled = "wontfix, stale"\<close> and operator \<open>not\<close>, an issue
  labelled \<open>Stale\<close> is skipped, and an issue labelled \<open>bug\<close> is not.\<close>

theorem not_operator_witness:
  "labelOperatorOf asciiBuiltins (exInputs ''github.com/users/ann/projects/3'' ''wontfix, stale'' ''not'' '''') = ''not'' \<and>
   labeledOf asciiBuiltins (exInputs ''github.com/users/ann/projects/3'' ''wontfix, stale'' ''not'' '''') = [''wontfix'', ''stale''] \<and>
   skippedCleanly (run
      asciiBuiltins (exInputs ''github.com/users/ann/projects/3'' ''wontfix, stale'' ''not'' '''')
      (exPayload [''Stale''] ''ann'')
      (exOctokit \<lparr>organization = None, user = None\<rparr> \<lparr>organization = None, user = None\<rparr>) 0) 0 \<and>
   reachedProjectUrl (trace (snd (run
      asciiBuiltins (exInputs ''github.com/users/ann/projects/3'' ''wontfix, stale'' ''not'' '''')
      (exPayload [''bug''] ''ann'')
      (exOctokit \<lparr>organization = None, user = None\<rparr> \<lparr>organization = None, user = None\<rparr>) 0)))"
proof -
  let ?inp = "exInputs ''github.com/users/ann/projects/3'' ''wontfix, stale'' ''not'' ''''"
  have op: "labelOperatorOf asciiBuiltins ?inp = ''not''"
    by (simp add: labelOperatorOf_def exInputs_def string_defs)
  have ls: "labeledOf asciiBuiltins ?inp = [''wontfix'', ''stale'']"
    by (simp add: labeledOf_def exInputs_def string_defs)
  have il: "issueLabelsOf asciiBuiltins (exPayload [''Stale''] ''ann'') = [''stale'']"
    by (simp add: issueLabelsOf_def issueLabelNames_def issueOf_def exPayload_def string_defs)
  have il2: "issueLabelsOf asciiBuiltins (exPayload [''bug''] ''ann'') = [''bug'']"
    by (simp add: issueLabelsOf_def issueLabelNames_def issueOf_def exPayload_def string_defs)
  let ?oct = "exOctokit \<lparr>organization = None, user = None\<rparr> \<lparr>organization = None, user = None\<rparr>"
  show ?thesis
    using not_operator_skips_iff_some_label
        [OF op, where ctx = "exPayload [''Stale''] ''ann''" and octokit = ?oct and w = 0]
      not_operator_skips_iff_some_label
        [OF op, where ctx = "exPayload [''bug''] ''ann''" and octokit = ?oct and w = 0]
    unfolding op ls il il2 by simp
qed


text \<open>
  Claim C4. With any operator other than \<open>and\<close> and \<open>not\<close> (as read: trimmed and
  lower-cased; \<open>or\<close> and the unset operator are such), a run gets past the label filter when
  no label is configured, and otherwise if and only if a configured label equals the
  lower-cased name of a label of the issue. This holds on every platform. On a platform that
  treats ASCII strings as the ASCII fragment says, and for ASCII labels, it reads: no entry
  of \<open>labeled\<close> is left after trimming, or an entry, trimmed, equals the name of a label of the
  issue up to the case of the letters.
\<close>

theorem default_operator_proceeds_iff_any_label:
  assumes "labelOperatorOf js inp \<noteq> ''and''" "labelOperatorOf js inp \<noteq> ''not''"
  shows "(reachedProjectUrl (trace (snd (run js inp ctx octokit w))) \<longleftrightarrow>
            labeledOf js inp = [] \<or>
            (\<exists>c \<in> set (labeledOf js inp). \<exists>l \<in> set (issueLabelNames ctx).
               b_toLowerCase js l = c)) \<and>
         (agreesOnAscii js \<and> isAscii (input_labeled inp) \<and>
          list_all isAscii (issueLabelNames ctx) \<longrightarrow>
            (reachedProjectUrl (trace (snd (run js inp ctx octokit w))) \<longleftrightarrow>
               (\<forall>p \<in> set (split CHR '','' (input_labeled inp)). trim p = []) \<or>
               (\<exists>p \<in> set (split CHR '','' (input_labeled inp)).
                  \<exists>l \<in> set (issueLabelNames ctx).
                    trim p \<noteq> [] \<and> toLowerCase l = toLowerCase (trim p))))"
proof (intro conjI impI)
  show general: "reachedProjectUrl (trace (snd (run js inp ctx octokit w))) \<longleftrightarrow>
            labeledOf js inp = [] \<or>
            (\<exists>c \<in> set (labeledOf js inp). \<exists>l \<in> set (issueLabelNames ctx).
               b_toLowerCase js l = c)"
    unfolding proceeds_iff labelsMatch_def issueLabelsOf_def using assms by auto
  assume a: "agreesOnAscii js \<and> isAscii (input_labeled inp) \<and>
          list_all isAscii (issueLabelNames ctx)"
  then have ls: "labeledOf js inp =
      filter (\<lambda>l. length l > 0)
        (map (\<lambda>l. toLowerCase (trim l)) (split CHR '','' (input_labeled inp)))"
    by (intro labeledOf_ascii) simp_all
  from a have il: "\<And>l. l \<in> set (issueLabelNames ctx) \<Longrightarrow> b_toLowerCase js l = toLowerCase l"
    by (auto simp: agreesOnAscii_def list_all_iff)
  have e: "toLowerCase s = [] \<longleftrightarrow> s = []" for s
    by (simp add: toLowerCase_def)
  show "reachedProjectUrl (trace (snd (run js inp ctx octokit w))) \<longleftrightarrow>
               (\<forall>p \<in> set (split CHR '','' (input_labeled inp)). trim p = []) \<or>
               (\<exists>p \<in> set (split CHR '','' (input_labeled inp)).
                  \<exists>l \<in> set (issueLabelNames ctx).
                    trim p \<noteq> [] \<and> toLowerCase l = toLowerCase (trim p))"
    unfolding general ls using il by (auto simp: filter_empty_conv e)
qed

text \<open>The example of the specification: \<open>labeled = "bug, help wanted"\<close>, operator unset, issue
  labelled \<open>Bug\<close>.\<close>

theorem default_operator_witness:
  "labelOperatorOf asciiBuiltins (exInputs ''github.com/users/ann/projects/3'' ''bug, help wanted'' '''' '''') = '''' \<and>
   labeledOf asciiBuiltins (exInputs ''github.com/users/ann/projects/3'' ''bug, help wanted'' '''' '''') = [''bug'', ''help wanted''] \<and>
   issueLabelNames (exPayload [''Bug''] ''ann'') = [''Bug''] \<and>
   agreesOnAscii asciiBuiltins \<and> isAscii ''bug, help wanted'' \<and> list_all isAscii [''Bug''] \<and>
   toLowerCase ''Bug'' = toLowerCase (trim ''bug'') \<and>
   reachedProjectUrl (trace (snd (run
      asciiBuiltins (exInputs ''github.com/users/ann/projects/3'' ''bug, help wanted'' '''' '''')
      (exPayload [''Bug''] ''ann'')
      (exOctokit \<lparr>organization = None, user = None\<rparr> \<lparr>organization = None, user = None\<rparr>) 0)))"
proof -
  let ?inp = "exInputs ''github.com/users/ann/projects/3'' ''bug, help wanted'' '''' ''''"
  let ?ctx = "exPayload [''Bug''] ''ann''"
  let ?oct = "exOctokit \<lparr>organization = None, user = None\<rparr> \<lparr>organization = None, user = None\<rparr>"
  have op: "labelOperatorOf asciiBuiltins ?inp = ''''"
    by (simp add: labelOperatorOf_def exInputs_def string_defs)
  have ls: "labeledOf asciiBuiltins ?inp = [''bug'', ''help wanted'']"
    by (simp add: labeledOf_def exInputs_def string_defs)
  have il: "issueLabelNames ?ctx = [''Bug'']"
    by (simp add: issueLabelNames_def issueOf_def exPayload_def)
  have lc: "toLowerCase ''Bug'' = toLowerCase (trim ''bug'')"
    by (simp add: string_defs)
  have asc: "isAscii ''bug, help wanted''" "list_all isAscii [''Bug'']"
    by (simp_all add: isAscii_def)
  have sp: "split CHR '','' (input_labeled ?inp) = [''bug'', '' help wanted'']"
    by (simp add: exInputs_def)
  have ne: "trim ''bug'' \<noteq> []"
    by (simp add: string_defs)
  have "labelOperatorOf asciiBuiltins ?inp \<noteq> ''and''" "labelOperatorOf asciiBuiltins ?inp \<noteq> ''not''"
    unfolding op by simp_all
  note inst = default_operator_proceeds_iff_any_label
    [OF this, where ctx = ?ctx and w = "0 :: nat" and octokit = ?oct]
  have given: "agreesOnAscii asciiBuiltins \<and> isAscii (input_labeled ?inp) \<and>
      list_all isAscii (issueLabelNames ?ctx)"
    using agreesOnAscii_asciiBuiltins asc unfolding il by (simp add: exInputs_def)
  have "reachedProjectUrl (trace (snd (run asciiBuiltins ?inp ?ctx ?oct 0)))"
    unfolding inst [THEN conjunct2, THEN mp, OF given] sp il using lc ne by simp
  then show ?thesis
    using op ls il agreesOnAscii_asciiBuiltins asc lc by simp
qed

section \<open>A run that is skipped\<close>

text \<open>
  Claim C8. When the label filter does not match, the run returns normally before the project
  URL is parsed: it throws nothing, sends no request, leaves the service as it was, sets no
  output, and its trace is the debug line on the issue owner and one informational line.
  The mismatch is that of the labels and the operator as the platform trims and lower-cases
  them, on every platform.
\<close>

theorem label_mismatch_returns_without_effect:
  assumes "\<not> labelsMatch (labelOperatorOf js inp) (labeledOf js inp) (issueLabelsOf js ctx)"
  shows "fst (run js inp ctx octokit w) = Returns () \<and>
         world (snd (run js inp ctx octokit w)) = w \<and>
         requests (trace (snd (run js inp ctx octokit w))) = [] \<and>
         outputs (trace (snd (run js inp ctx octokit w))) = [] \<and>
         \<not> reachedProjectUrl (trace (snd (run js inp ctx octokit w))) \<and>
         (\<exists>m. trace (snd (run js inp ctx octokit w)) =
                [Debug (IssueOwner (issueOwnerNameOf ctx)), Info m])"
proof -
  from assms obtain m where m: "skipLine js inp ctx = Some m"
    using skipLine_None_iff [of js inp ctx] by (cases "skipLine js inp ctx") auto
  show ?thesis unfolding run_skip [OF m] by simp
qed

text \<open>A run with operator \<open>and\<close> on an issue that lacks a configured label, with a project URL
  that would not even parse: it returns, and the service has counted no request.\<close>

theorem label_mismatch_witness:
  "\<not> labelsMatch (labelOperatorOf asciiBuiltins (exInputs ''not a url'' ''bug, help wanted'' ''and'' ''Todo''))
       (labeledOf asciiBuiltins (exInputs ''not a url'' ''bug, help wanted'' ''and'' ''Todo''))
       (issueLabelsOf asciiBuiltins (exPayload [''Bug''] ''acme'')) \<and>
   fst (run asciiBuiltins (exInputs ''not a url'' ''bug, help wanted'' ''and'' ''Todo'') (exPayload [''Bug''] ''acme'')
     (exOctokit \<lparr>organization = None, user = None\<rparr> \<lparr>organization = None, user = None\<rparr>) 0)
     = Returns () \<and>
   world (snd (run asciiBuiltins (exInputs ''not a url'' ''bug, help wanted'' ''and'' ''Todo'') (exPayload [''Bug''] ''acme'')
     (exOctokit \<lparr>organization = None, user = None\<rparr> \<lparr>organization = None, user = None\<rparr>) 0))
     = 0 \<and>
   requests (trace (snd (run asciiBuiltins (exInputs ''not a url'' ''bug, help wanted'' ''and'' ''Todo'') (exPayload [''Bug''] ''acme'')
     (exOctokit \<lparr>organization = None, user = None\<rparr> \<lparr>organization = None, user = None\<rparr>) 0)))
     = [] \<and>
   outputs (trace (snd (run asciiBuiltins (exInputs ''not a url'' ''bug, help wanted'' ''and'' ''Todo'') (exPayload [''Bug''] ''acme'')
     (exOctokit \<lparr>organization = None, user = None\<rparr> \<lparr>organization = None, user = None\<rparr>) 0)))
     = []"
proof -
  let ?inp = "exInputs ''not a url'' ''bug, help wanted'' ''and'' ''Todo''"
  let ?ctx = "exPayload [''Bug''] ''acme''"
  let ?oct = "exOctokit \<lparr>organization = None, user = None\<rparr> \<lparr>organization = None, user = None\<rparr>"
  have op: "labelOperatorOf asciiBuiltins ?inp = ''and''"
    by (simp add: labelOperatorOf_def exInputs_def string_defs)
  have ls: "labeledOf asciiBuiltins ?inp = [''bug'', ''help wanted'']"
    by (simp add: labeledOf_def exInputs_def string_defs)
  have il: "issueLabelsOf asciiBuiltins ?ctx = [''bug'']"
    by (simp add: issueLabelsOf_def issueLabelNames_def issueOf_def exPayload_def string_defs)
  have no: "\<not> labelsMatch (labelOperatorOf asciiBuiltins ?inp) (labeledOf asciiBuiltins ?inp) (issueLabelsOf asciiBuiltins ?ctx)"
    unfolding op ls il by (simp add: labelsMatch_def)
  from label_mismatch_returns_without_effect [OF no, where octokit = ?oct and w = 0]
  show ?thesis using no by blast
qed


section \<open>Lemmas on the label operator and the owner type\<close>







lemma addToProject_never_unsupported:
  "fst (addToProject js inp ctx octokit s) \<noteq> Throws (UnsupportedOwnerType ot)"
proof (cases "skipLine js inp ctx")
  case (Some m)
  show ?thesis unfolding addToProject_skip [OF Some] by simp
next
  case None
  show ?thesis
  proof (cases "urlParse (input_project_url inp)")
    case no: None
    show ?thesis unfolding addToProject_badUrl [OF None no] by simp
  next
    case (Some g)
    let ?E = "\<lambda>e. e \<noteq> UnsupportedOwnerType ot"
    let ?q = "if group_ownerType g = ''orgs'' then Organization else User"
    let ?m = "thenDo (graphql (getProject octokit) (getProjectRequest js g ?q))
      (\<lambda>idResp.
         thenDo (emit (Debug (ProjectNodeID (projectIdOf idResp ?q)))) (\<lambda>_.
         thenDo (emit (Debug (ContentID (Option.bind (issueOf ctx) node_id)))) (\<lambda>_.
         thenDo (addItem octokit (issueOwnerNameOf ctx) (Some (group_ownerName g))
                   (projectIdOf idResp ?q) (issueOf ctx))
           (finish inp octokit ?q (Some (group_ownerName g)) (b_parseInt js (group_projectNumber g))
              (projectIdOf idResp ?q)))))"
    have "behaves (\<lambda>_. True) ?E ?m"
      by (intro behaves_intros addItem_behaves finish_behaves) simp_all
    from behaves_throws [OF this] show ?thesis
      unfolding addToProject_goodUrl [OF None Some mustGetOwnerTypeQuery_parsed [OF Some]]
      by blast
  qed
qed

section \<open>The label operator as read\<close>



section \<open>The owner type of a parsed URL\<close>

text \<open>
  Claim C10. The owner type captured from a project URL that matches the expression is \<open>orgs\<close>
  or \<open>users\<close>, so \<open>mustGetOwnerTypeQuery\<close> returns \<open>organization\<close> or \<open>user\<close> on it, and no
  run of \<open>addToProject\<close> ends in the error \<open>Unsupported ownerType\<close>.
\<close>

theorem unsupported_owner_type_unreachable:
  "(urlParse url = Some g \<longrightarrow>
      (group_ownerType g = ''orgs'' \<or> group_ownerType g = ''users'') \<and>
      mustGetOwnerTypeQuery (Some (group_ownerType g)) =
        Inr (if group_ownerType g = ''orgs'' then Organization else User)) \<and>
   fst (addToProject js inp ctx octokit s) \<noteq> Throws (UnsupportedOwnerType ot)"
  using urlParse_ownerType [of url g] mustGetOwnerTypeQuery_parsed [of url g]
    addToProject_never_unsupported [of js inp ctx octokit s ot]
  by blast

text \<open>A URL of a user's project.\<close>

theorem unsupported_owner_type_witness:
  "urlParse ''github.com/users/ann/projects/3/views/1'' =
     Some \<lparr>group_ownerType = ''users'', group_ownerName = ''ann'', group_projectNumber = ''3''\<rparr> \<and>
   mustGetOwnerTypeQuery (Some ''users'') = Inr User"
proof -
  have p: "urlParse ''github.com/users/ann/projects/3/views/1'' =
     Some \<lparr>group_ownerType = ''users'', group_ownerName = ''ann'', group_projectNumber = ''3''\<rparr>"
    by (simp add: urlParse_def matchOwnerType_def isDigit_def)
  from unsupported_owner_type_unreachable [THEN conjunct1, THEN mp, OF p]
  show ?thesis using p by simp
qed


section \<open>The status override\<close>

lemma updateStatus_none:
  assumes "input_status_override inp = []"
  shows "updateStatusFieldValueOnCard inp octokit q on pn pid iid s =
    (Returns (),
     s\<lparr>trace := trace s @ [Debug (StatusFieldOverride []), Info SkippingStatusUpdate]\<rparr>)"
  using assms unfolding updateStatusFieldValueOnCard_def Let_def by (simp add: emit_def)

lemma updateStatus_invalid:
  assumes "input_status_override inp \<noteq> []"
    and "getStatusFieldId octokit (GetStatusFieldId q on pn) (world s) = (Inr resp, w1)"
    and "find (\<lambda>option. option_name option = input_status_override inp) (statusOptions resp q) = None"
  shows "updateStatusFieldValueOnCard inp octokit q on pn pid iid s =
    (Throws (InvalidStatusOption (input_status_override inp)),
     \<lparr>world = w1,
      trace = trace s @
        [Debug (StatusFieldOverride (input_status_override inp)), Info OverridingStatus,
         Graphql (GetStatusFieldId q on pn),
         Debug (StatusFieldID (map_option field_id (atOwner resp q))),
         Debug (StatusOptionID None)]\<rparr>)"
  using assms unfolding updateStatusFieldValueOnCard_def Let_def statusOptions_def
  by (simp add: thenDo_graphql throw_def)

lemma updateStatus_valid:
  assumes "input_status_override inp \<noteq> []"
    and "getStatusFieldId octokit (GetStatusFieldId q on pn) (world s) = (Inr resp, w1)"
    and "find (\<lambda>option. option_name option = input_status_override inp) (statusOptions resp q) = Some opt"
  shows "trace (snd (updateStatusFieldValueOnCard inp octokit q on pn pid iid s)) =
      trace s @
        [Debug (StatusFieldOverride (input_status_override inp)), Info OverridingStatus,
         Graphql (GetStatusFieldId q on pn),
         Debug (StatusFieldID (map_option field_id (atOwner resp q))),
         Debug (StatusOptionID (Some (option_id opt))),
         Graphql (UpdateProjectV2ItemFieldValue pid iid (map_option field_id (atOwner resp q))
                    (option_id opt))]"
  using assms unfolding updateStatusFieldValueOnCard_def Let_def statusOptions_def
  by (simp add: thenDo_graphql return_def split: prod.splits sum.splits)

lemma find_named:
  assumes "x \<in> option_name ` set os"
  shows "\<exists>opt. find (\<lambda>option. option_name option = x) os = Some opt \<and> opt \<in> set os \<and>
               option_name opt = x"
proof (cases "find (\<lambda>option. option_name option = x) os")
  case None
  with assms show ?thesis by (auto simp: find_None_iff)
next
  case (Some opt)
  then show ?thesis by (auto simp: find_Some_iff)
qed

text \<open>
  Claim C7. \<open>updateStatusFieldValueOnCard\<close> with an empty \<open>status-override\<close> returns and
  sends no request. With an override that is not empty, once the field-id query has returned:
  when no option of the field has exactly the override as its name (the field or its option
  list absent, the list empty, or no such name in it), the call throws the error that names the
  override, and the update mutation is not sent; when an option has that name, the update
  mutation is sent with the id of the first such option.
\<close>

theorem status_override_runs_only_when_set_and_rejects_unknown_option:
  "(input_status_override inp = [] \<longrightarrow>
      fst (updateStatusFieldValueOnCard inp octokit q on pn pid iid s) = Returns () \<and>
      world (snd (updateStatusFieldValueOnCard inp octokit q on pn pid iid s)) = world s \<and>
      requests (trace (snd (updateStatusFieldValueOnCard inp octokit q on pn pid iid s))) =
        requests (trace s)) \<and>
   (input_status_override inp \<noteq> [] \<and>
    getStatusFieldId octokit (GetStatusFieldId q on pn) (world s) = (Inr resp, w1) \<and>
    input_status_override inp \<notin> option_name ` set (statusOptions resp q) \<longrightarrow>
      fst (updateStatusFieldValueOnCard inp octokit q on pn pid iid s) =
        Throws (InvalidStatusOption (input_status_override inp)) \<and>
      requests (trace (snd (updateStatusFieldValueOnCard inp octokit q on pn pid iid s))) =
        requests (trace s) @ [GetStatusFieldId q on pn]) \<and>
   (input_status_override inp \<noteq> [] \<and>
    getStatusFieldId octokit (GetStatusFieldId q on pn) (world s) = (Inr resp, w1) \<and>
    input_status_override inp \<in> option_name ` set (statusOptions resp q) \<longrightarrow>
      (\<exists>opt. find (\<lambda>option. option_name option = input_status_override inp)
                (statusOptions resp q) = Some opt \<and>
             option_name opt = input_status_override inp \<and>
             requests (trace (snd (updateStatusFieldValueOnCard inp octokit q on pn pid iid s))) =
               requests (trace s) @
                 [GetStatusFieldId q on pn,
                  UpdateProjectV2ItemFieldValue pid iid (map_option field_id (atOwner resp q))
                    (option_id opt)])) \<and>
   (atOwner resp q = None \<or> Option.bind (atOwner resp q) options = None \<or>
    Option.bind (atOwner resp q) options = Some [] \<longrightarrow>
      input_status_override inp \<notin> option_name ` set (statusOptions resp q))"
proof (intro conjI impI)
  assume e: "input_status_override inp = []"
  show "fst (updateStatusFieldValueOnCard inp octokit q on pn pid iid s) = Returns ()"
    "world (snd (updateStatusFieldValueOnCard inp octokit q on pn pid iid s)) = world s"
    "requests (trace (snd (updateStatusFieldValueOnCard inp octokit q on pn pid iid s))) =
        requests (trace s)"
    unfolding updateStatus_none [OF e] by simp_all
next
  assume a: "input_status_override inp \<noteq> [] \<and>
    getStatusFieldId octokit (GetStatusFieldId q on pn) (world s) = (Inr resp, w1) \<and>
    input_status_override inp \<notin> option_name ` set (statusOptions resp q)"
  then have f: "find (\<lambda>option. option_name option = input_status_override inp)
                  (statusOptions resp q) = None"
    unfolding find_None_iff by (metis imageI)
  from a have ne: "input_status_override inp \<noteq> []"
    and g: "getStatusFieldId octokit (GetStatusFieldId q on pn) (world s) = (Inr resp, w1)"
    by simp_all
  show "fst (updateStatusFieldValueOnCard inp octokit q on pn pid iid s) =
        Throws (InvalidStatusOption (input_status_override inp))"
    "requests (trace (snd (updateStatusFieldValueOnCard inp octokit q on pn pid iid s))) =
        requests (trace s) @ [GetStatusFieldId q on pn]"
    unfolding updateStatus_invalid [OF ne g f] by simp_all
next
  assume a: "input_status_override inp \<noteq> [] \<and>
    getStatusFieldId octokit (GetStatusFieldId q on pn) (world s) = (Inr resp, w1) \<and>
    input_status_override inp \<in> option_name ` set (statusOptions resp q)"
  then obtain opt where
    f: "find (\<lambda>option. option_name option = input_status_override inp)
          (statusOptions resp q) = Some opt"
    and n: "option_name opt = input_status_override inp"
    using find_named by blast
  from a have ne: "input_status_override inp \<noteq> []"
    and g: "getStatusFieldId octokit (GetStatusFieldId q on pn) (world s) = (Inr resp, w1)"
    by simp_all
  show "\<exists>opt. find (\<lambda>option. option_name option = input_status_override inp)
                (statusOptions resp q) = Some opt \<and>
             option_name opt = input_status_override inp \<and>
             requests (trace (snd (updateStatusFieldValueOnCard inp octokit q on pn pid iid s))) =
               requests (trace s) @
                 [GetStatusFieldId q on pn,
                  UpdateProjectV2ItemFieldValue pid iid (map_option field_id (atOwner resp q))
                    (option_id opt)]"
    using f n unfolding updateStatus_valid [OF ne g f] by simp
next
  assume "atOwner resp q = None \<or> Option.bind (atOwner resp q) options = None \<or>
    Option.bind (atOwner resp q) options = Some []"
  then have "statusOptions resp q = []"
    by (auto simp: statusOptions_def split: option.splits)
  then show "input_status_override inp \<notin> option_name ` set (statusOptions resp q)" by simp
qed

text \<open>A field \<open>Status\<close> with the options \<open>Todo\<close> and \<open>Done\<close>: the override \<open>Done\<close> sends the update
  with the id of \<open>Done\<close>, the override \<open>Nope\<close> throws, and the empty override returns.\<close>

theorem status_override_witness:
  "requests (trace (snd (updateStatusFieldValueOnCard
      (exInputs ''github.com/orgs/acme/projects/7'' '''' '''' ''Done'')
      (exOctokit \<lparr>organization = None, user = None\<rparr>
         \<lparr>organization = Some \<lparr>field_id = ''F_1'', options = Some
              [\<lparr>option_id = ''o1'', option_name = ''Todo''\<rparr>,
               \<lparr>option_id = ''o2'', option_name = ''Done''\<rparr>]\<rparr>, user = None\<rparr>)
      Organization ''acme'' (Some 7) ''PVT_1'' ''PVTI_1'' \<lparr>world = 0, trace = []\<rparr>))) =
     [GetStatusFieldId Organization ''acme'' (Some 7),
      UpdateProjectV2ItemFieldValue ''PVT_1'' ''PVTI_1'' (Some ''F_1'') ''o2''] \<and>
   fst (updateStatusFieldValueOnCard
      (exInputs ''github.com/orgs/acme/projects/7'' '''' '''' ''Nope'')
      (exOctokit \<lparr>organization = None, user = None\<rparr>
         \<lparr>organization = Some \<lparr>field_id = ''F_1'', options = Some
              [\<lparr>option_id = ''o1'', option_name = ''Todo''\<rparr>,
               \<lparr>option_id = ''o2'', option_name = ''Done''\<rparr>]\<rparr>, user = None\<rparr>)
      Organization ''acme'' (Some 7) ''PVT_1'' ''PVTI_1'' \<lparr>world = 0, trace = []\<rparr>) =
     Throws (InvalidStatusOption ''Nope'') \<and>
   fst (updateStatusFieldValueOnCard
      (exInputs ''github.com/orgs/acme/projects/7'' '''' '''' '''')
      (exOctokit \<lparr>organization = None, user = None\<rparr>
         \<lparr>organization = Some \<lparr>field_id = ''F_1'', options = Some
              [\<lparr>option_id = ''o1'', option_name = ''Todo''\<rparr>,
               \<lparr>option_id = ''o2'', option_name = ''Done''\<rparr>]\<rparr>, user = None\<rparr>)
      Organization ''acme'' (Some 7) ''PVT_1'' ''PVTI_1'' \<lparr>world = 0, trace = []\<rparr>) =
     Returns ()"
proof -
  let ?resp = "\<lparr>organization = Some \<lparr>field_id = ''F_1'', options = Some
              [\<lparr>option_id = ''o1'', option_name = ''Todo''\<rparr>,
               \<lparr>option_id = ''o2'', option_name = ''Done''\<rparr>]\<rparr>, user = None\<rparr>"
  let ?oct = "exOctokit \<lparr>organization = None, user = None\<rparr> ?resp"
  let ?s = "\<lparr>world = 0 :: nat, trace = []\<rparr>"
  let ?inp = "\<lambda>ov. exInputs ''github.com/orgs/acme/projects/7'' '''' '''' ov"
  have g: "getStatusFieldId ?oct (GetStatusFieldId Organization ''acme'' (Some 7)) (world ?s) =
             (Inr ?resp, 1)"
    by (simp add: exOctokit_def)
  have os: "statusOptions ?resp Organization =
              [\<lparr>option_id = ''o1'', option_name = ''Todo''\<rparr>,
               \<lparr>option_id = ''o2'', option_name = ''Done''\<rparr>]"
    by (simp add: statusOptions_def atOwner_def)
  have ov: "input_status_override (?inp ov) = ov" for ov
    by (simp add: exInputs_def)
  note inst = status_override_runs_only_when_set_and_rejects_unknown_option
    [where octokit = ?oct and q = Organization and on = "''acme''" and pn = "Some 7"
       and pid = "''PVT_1''" and iid = "''PVTI_1''" and s = ?s and resp = ?resp and ?w1.0 = 1]
  have 1: "requests (trace (snd (updateStatusFieldValueOnCard (?inp ''Done'') ?oct
      Organization ''acme'' (Some 7) ''PVT_1'' ''PVTI_1'' ?s))) =
     [GetStatusFieldId Organization ''acme'' (Some 7),
      UpdateProjectV2ItemFieldValue ''PVT_1'' ''PVTI_1'' (Some ''F_1'') ''o2'']"
    using inst [where inp = "?inp ''Done''", THEN conjunct2, THEN conjunct2, THEN conjunct1] g
    unfolding ov os by (simp add: atOwner_def)
  have 2: "fst (updateStatusFieldValueOnCard (?inp ''Nope'') ?oct
      Organization ''acme'' (Some 7) ''PVT_1'' ''PVTI_1'' ?s) = Throws (InvalidStatusOption ''Nope'')"
    using inst [where inp = "?inp ''Nope''", THEN conjunct2, THEN conjunct1] g
    unfolding ov os by simp
  have 3: "fst (updateStatusFieldValueOnCard (?inp '''') ?oct
      Organization ''acme'' (Some 7) ''PVT_1'' ''PVTI_1'' ?s) = Returns ()"
    using inst [where inp = "?inp ''''", THEN conjunct1]
    unfolding ov by simp
  from 1 2 3 show ?thesis by simp
qed


section \<open>The project URL in a run\<close>

lemma foldl_horner_sum:
  "foldl (\<lambda>n c. 10 * n + f c) 0 ds = horner_sum f (10 :: nat) (rev ds)"
  by (induction ds rule: rev_induct) simp_all

lemma parseInt_exact:
  assumes "ds \<noteq> []" "list_all isDigit ds"
  shows "parseInt ds = Some (horner_sum (\<lambda>c. of_char c - 48) 10 (rev ds))"
proof -
  from assms(2) have all: "takeWhile isDigit ds = ds"
    by (simp add: list_all_iff takeWhile_eq_all_conv)
  show ?thesis
    unfolding parseInt_def all Let_def foldl_horner_sum using assms(1) by simp
qed

lemma parsesSafeIntegers_asciiBuiltins: "parsesSafeIntegers asciiBuiltins"
  by (simp add: parsesSafeIntegers_def asciiBuiltins_def parseInt_exact)

lemma digits_of_shape:
  assumes "projectUrlShape pre ot on pn"
  shows "pn @ takeWhile isDigit rest \<noteq> []" "list_all isDigit (pn @ takeWhile isDigit rest)"
  using assms by (auto simp: projectUrlShape_def list_all_iff dest: set_takeWhileD)


lemma urlParse_None_iff:
  "urlParse s = None \<longleftrightarrow>
     (\<forall>pre ot on pn rest. projectUrlShape pre ot on pn \<longrightarrow> s \<noteq> projectUrl pre ot on pn rest)"
proof
  assume n: "urlParse s = None"
  show "\<forall>pre ot on pn rest. projectUrlShape pre ot on pn \<longrightarrow> s \<noteq> projectUrl pre ot on pn rest"
  proof (intro allI impI notI)
    fix pre ot on pn rest
    assume "projectUrlShape pre ot on pn" "s = projectUrl pre ot on pn rest"
    with urlParse_shape [of pre ot on pn rest] n show False by simp
  qed
next
  assume a: "\<forall>pre ot on pn rest. projectUrlShape pre ot on pn \<longrightarrow> s \<noteq> projectUrl pre ot on pn rest"
  show "urlParse s = None"
  proof (cases "urlParse s")
    case (Some g)
    from urlParse_Some_shape [OF Some] a show ?thesis by blast
  qed simp
qed


text \<open>
  Claim C5. In a run that gets past the label filter, a project URL of the format
  \<open>[https://]github.com/(orgs|users)/<owner>/projects/<number>\<close>, whatever follows it, is
  parsed into the owner type (\<open>orgs\<close> as \<open>organization\<close>, \<open>users\<close> as \<open>user\<close>), the owner name
  and the result of \<open>parseInt\<close> on the whole run of digits, and the project-id query is sent
  with them; where \<open>parseInt\<close> is exact on numbers up to \<open>2^53\<close> and the digits denote such a
  number, the query carries that number. For any other project URL the run throws the error
  on the invalid project URL, and sends nothing.
\<close>

theorem project_url_parsed_or_rejected:
  assumes "labelsMatch (labelOperatorOf js inp) (labeledOf js inp) (issueLabelsOf js ctx)"
  shows "(projectUrlShape pre ot on pn \<and> input_project_url inp = projectUrl pre ot on pn rest \<longrightarrow>
           (\<exists>evs. trace (snd (run js inp ctx octokit w)) =
                [Debug (IssueOwner (issueOwnerNameOf ctx)),
                 Debug (ProjectURL (input_project_url inp)),
                 Debug (ProjectOwner (Some on)),
                 Debug (ProjectNumber (b_parseInt js (pn @ takeWhile isDigit rest))),
                 Debug (ProjectOwnerType (Some ot)),
                 Graphql (GetProject (if ot = ''orgs'' then Organization else User) (Some on)
                            (b_parseInt js (pn @ takeWhile isDigit rest)))] @ evs)) \<and>
         (parsesSafeIntegers js \<and> projectUrlShape pre ot on pn \<and>
          input_project_url inp = projectUrl pre ot on pn rest \<and>
          horner_sum (\<lambda>c. of_char c - 48) (10 :: nat) (rev (pn @ takeWhile isDigit rest))
            \<le> 2 ^ 53 \<longrightarrow>
           (\<exists>evs. trace (snd (run js inp ctx octokit w)) =
                [Debug (IssueOwner (issueOwnerNameOf ctx)),
                 Debug (ProjectURL (input_project_url inp)),
                 Debug (ProjectOwner (Some on)),
                 Debug (ProjectNumber
                   (Some (horner_sum (\<lambda>c. of_char c - 48) 10
                            (rev (pn @ takeWhile isDigit rest))))),
                 Debug (ProjectOwnerType (Some ot)),
                 Graphql (GetProject (if ot = ''orgs'' then Organization else User) (Some on)
                   (Some (horner_sum (\<lambda>c. of_char c - 48) 10
                            (rev (pn @ takeWhile isDigit rest)))))] @ evs)) \<and>
         ((\<forall>pre ot on pn rest. projectUrlShape pre ot on pn \<longrightarrow>
              input_project_url inp \<noteq> projectUrl pre ot on pn rest) \<longrightarrow>
           run js inp ctx octokit w =
             (Throws (InvalidProjectURL (input_project_url inp)),
              \<lparr>world = w,
               trace = [Debug (IssueOwner (issueOwnerNameOf ctx)),
                        Debug (ProjectURL (input_project_url inp))]\<rparr>))"
proof -
  from assms have pass: "skipLine js inp ctx = None" by (simp add: skipLine_None_iff)
  have parsed: "\<exists>evs. trace (snd (run js inp ctx octokit w)) =
                [Debug (IssueOwner (issueOwnerNameOf ctx)),
                 Debug (ProjectURL (input_project_url inp)),
                 Debug (ProjectOwner (Some on)),
                 Debug (ProjectNumber (b_parseInt js (pn @ takeWhile isDigit rest))),
                 Debug (ProjectOwnerType (Some ot)),
                 Graphql (GetProject (if ot = ''orgs'' then Organization else User) (Some on)
                            (b_parseInt js (pn @ takeWhile isDigit rest)))] @ evs"
    if shape: "projectUrlShape pre ot on pn"
      and url: "input_project_url inp = projectUrl pre ot on pn rest"
  proof -
    let ?g = "\<lparr>group_ownerType = ot, group_ownerName = on,
               group_projectNumber = pn @ takeWhile isDigit rest\<rparr>"
    let ?q = "if ot = ''orgs'' then Organization else User"
    from url urlParse_shape [OF shape, of rest]
    have p: "urlParse (input_project_url inp) = Some ?g" by simp
    from mustGetOwnerTypeQuery_parsed [OF p]
    have q: "mustGetOwnerTypeQuery (Some (group_ownerType ?g)) = Inr ?q" by simp
    from run_goodUrl_trace [OF pass p q, where octokit = octokit and w = w] obtain evs where
      "trace (snd (run js inp ctx octokit w)) =
         preamble inp ctx @ resolved js ?g @ Graphql (getProjectRequest js ?g ?q) # evs" ..
    then show ?thesis
      by (simp add: preamble_def resolved_def getProjectRequest_def)
  qed
  have rejected: "run js inp ctx octokit w =
             (Throws (InvalidProjectURL (input_project_url inp)),
              \<lparr>world = w,
               trace = [Debug (IssueOwner (issueOwnerNameOf ctx)),
                        Debug (ProjectURL (input_project_url inp))]\<rparr>)"
    if "\<forall>pre ot on pn rest. projectUrlShape pre ot on pn \<longrightarrow>
              input_project_url inp \<noteq> projectUrl pre ot on pn rest"
  proof -
    from that have "urlParse (input_project_url inp) = None" by (simp add: urlParse_None_iff)
    from run_badUrl [OF pass this, of octokit w] show ?thesis by (simp add: preamble_def)
  qed
  have number: "b_parseInt js (pn @ takeWhile isDigit rest) =
      Some (horner_sum (\<lambda>c. of_char c - 48) 10 (rev (pn @ takeWhile isDigit rest)))"
    if "parsesSafeIntegers js" "projectUrlShape pre ot on pn"
      "horner_sum (\<lambda>c. of_char c - 48) (10 :: nat) (rev (pn @ takeWhile isDigit rest)) \<le> 2 ^ 53"
    using that digits_of_shape [of pre ot on pn rest] unfolding parsesSafeIntegers_def by blast
  show ?thesis
  proof (intro conjI impI)
    assume "projectUrlShape pre ot on pn \<and> input_project_url inp = projectUrl pre ot on pn rest"
    then show "\<exists>evs. trace (snd (run js inp ctx octokit w)) =
                [Debug (IssueOwner (issueOwnerNameOf ctx)),
                 Debug (ProjectURL (input_project_url inp)),
                 Debug (ProjectOwner (Some on)),
                 Debug (ProjectNumber (b_parseInt js (pn @ takeWhile isDigit rest))),
                 Debug (ProjectOwnerType (Some ot)),
                 Graphql (GetProject (if ot = ''orgs'' then Organization else User) (Some on)
                            (b_parseInt js (pn @ takeWhile isDigit rest)))] @ evs"
      using parsed by blast
  next
    assume a: "parsesSafeIntegers js \<and> projectUrlShape pre ot on pn \<and>
          input_project_url inp = projectUrl pre ot on pn rest \<and>
          horner_sum (\<lambda>c. of_char c - 48) (10 :: nat) (rev (pn @ takeWhile isDigit rest))
            \<le> 2 ^ 53"
    with number have n: "b_parseInt js (pn @ takeWhile isDigit rest) =
      Some (horner_sum (\<lambda>c. of_char c - 48) 10 (rev (pn @ takeWhile isDigit rest)))"
      by blast
    from a parsed show "\<exists>evs. trace (snd (run js inp ctx octokit w)) =
                [Debug (IssueOwner (issueOwnerNameOf ctx)),
                 Debug (ProjectURL (input_project_url inp)),
                 Debug (ProjectOwner (Some on)),
                 Debug (ProjectNumber
                   (Some (horner_sum (\<lambda>c. of_char c - 48) 10
                            (rev (pn @ takeWhile isDigit rest))))),
                 Debug (ProjectOwnerType (Some ot)),
                 Graphql (GetProject (if ot = ''orgs'' then Organization else User) (Some on)
                   (Some (horner_sum (\<lambda>c. of_char c - 48) 10
                            (rev (pn @ takeWhile isDigit rest)))))] @ evs"
      unfolding n [symmetric] by blast
  next
    assume "\<forall>pre ot on pn rest. projectUrlShape pre ot on pn \<longrightarrow>
              input_project_url inp \<noteq> projectUrl pre ot on pn rest"
    then show "run js inp ctx octokit w =
             (Throws (InvalidProjectURL (input_project_url inp)),
              \<lparr>world = w,
               trace = [Debug (IssueOwner (issueOwnerNameOf ctx)),
                        Debug (ProjectURL (input_project_url inp))]\<rparr>)"
      by (rule rejected)
  qed
qed

text \<open>The example of the specification, \<open>https://github.com/orgs/acme/projects/7\<close>, on the
  ASCII platform, whose \<open>parseInt\<close> is exact; the URL \<open>github.com/users/ann/projects/1203/views/1\<close>
  of a view of a user's project; and a URL whose first segment is neither \<open>orgs\<close> nor \<open>users\<close>.\<close>

theorem project_url_witness:
  "labelsMatch (labelOperatorOf asciiBuiltins (exInputs ''https://github.com/orgs/acme/projects/7'' '''' '''' ''''))
     (labeledOf asciiBuiltins (exInputs ''https://github.com/orgs/acme/projects/7'' '''' '''' ''''))
     (issueLabelsOf asciiBuiltins (exPayload [] ''acme'')) \<and>
   parsesSafeIntegers asciiBuiltins \<and>
   projectUrlShape ''https://'' ''orgs'' ''acme'' ''7'' \<and>
   horner_sum (\<lambda>c. of_char c - 48) (10 :: nat) (rev ''7'') = 7 \<and>
   (\<exists>evs. trace (snd (run asciiBuiltins (exInputs ''https://github.com/orgs/acme/projects/7'' '''' '''' '''')
        (exPayload [] ''acme'')
        (exOctokit \<lparr>organization = None, user = None\<rparr> \<lparr>organization = None, user = None\<rparr>) 0)) =
      [Debug (IssueOwner (Some ''acme'')),
       Debug (ProjectURL ''https://github.com/orgs/acme/projects/7''),
       Debug (ProjectOwner (Some ''acme'')),
       Debug (ProjectNumber (Some 7)),
       Debug (ProjectOwnerType (Some ''orgs'')),
       Graphql (GetProject Organization (Some ''acme'') (Some 7))] @ evs) \<and>
   projectUrlShape '''' ''users'' ''ann'' ''1203'' \<and>
   horner_sum (\<lambda>c. of_char c - 48) (10 :: nat) (rev ''1203'') = 1203 \<and>
   (\<exists>evs. trace (snd (run asciiBuiltins (exInputs ''github.com/users/ann/projects/1203/views/1'' '''' '''' '''')
        (exPayload [] ''acme'')
        (exOctokit \<lparr>organization = None, user = None\<rparr> \<lparr>organization = None, user = None\<rparr>) 0)) =
      [Debug (IssueOwner (Some ''acme'')),
       Debug (ProjectURL ''github.com/users/ann/projects/1203/views/1''),
       Debug (ProjectOwner (Some ''ann'')),
       Debug (ProjectNumber (Some 1203)),
       Debug (ProjectOwnerType (Some ''users'')),
       Graphql (GetProject User (Some ''ann'') (Some 1203))] @ evs) \<and>
   run asciiBuiltins (exInputs ''https://github.com/teams/acme/projects/7'' '''' '''' '''')
        (exPayload [] ''acme'')
        (exOctokit \<lparr>organization = None, user = None\<rparr> \<lparr>organization = None, user = None\<rparr>) 0 =
     (Throws (InvalidProjectURL ''https://github.com/teams/acme/projects/7''),
      \<lparr>world = 0,
       trace = [Debug (IssueOwner (Some ''acme'')),
                Debug (ProjectURL ''https://github.com/teams/acme/projects/7'')]\<rparr>)"
proof -
  let ?long = "exInputs ''github.com/users/ann/projects/1203/views/1'' '''' '''' ''''"
  let ?good = "exInputs ''https://github.com/orgs/acme/projects/7'' '''' '''' ''''"
  let ?bad = "exInputs ''https://github.com/teams/acme/projects/7'' '''' '''' ''''"
  let ?ctx = "exPayload [] ''acme''"
  let ?oct = "exOctokit \<lparr>organization = None, user = None\<rparr> \<lparr>organization = None, user = None\<rparr>"
  have ls: "labeledOf asciiBuiltins (exInputs u '''' '''' '''') = []"
    "labelOperatorOf asciiBuiltins (exInputs u '''' '''' '''') = ''''" for u
    by (simp_all add: labeledOf_def labelOperatorOf_def exInputs_def string_defs)
  have pass: "labelsMatch (labelOperatorOf asciiBuiltins (exInputs u '''' '''' ''''))
                (labeledOf asciiBuiltins (exInputs u '''' '''' ''''))
                (issueLabelsOf asciiBuiltins ?ctx)" for u
    unfolding ls by (simp add: labelsMatch_def)
  have shape: "projectUrlShape ''https://'' ''orgs'' ''acme'' ''7''"
    by (simp add: projectUrlShape_def isDigit_def)
  have url: "input_project_url ?good = projectUrl ''https://'' ''orgs'' ''acme'' ''7'' ''''"
    by (simp add: exInputs_def projectUrl_def)
  have seven: "horner_sum (\<lambda>c. of_char c - 48) (10 :: nat) (rev ''7'') = 7"
    by simp
  have bound: "horner_sum (\<lambda>c. of_char c - 48) (10 :: nat) (rev (''7'' @ takeWhile isDigit '''')) \<le> 2 ^ 53"
    by simp
  have own: "issueOwnerNameOf ?ctx = Some ''acme''"
    by (simp add: issueOwnerNameOf_def exPayload_def)
  have none: "urlParse ''https://github.com/teams/acme/projects/7'' = None"
    by (simp add: urlParse_def matchOwnerType_def)
  have bad: "\<forall>pre ot on pn rest. projectUrlShape pre ot on pn \<longrightarrow>
              input_project_url ?bad \<noteq> projectUrl pre ot on pn rest"
    using none by (simp add: urlParse_None_iff exInputs_def)
  from project_url_parsed_or_rejected [OF pass, where octokit = ?oct and w = 0,
      THEN conjunct2, THEN conjunct1, THEN mp,
      OF conjI [OF parsesSafeIntegers_asciiBuiltins conjI [OF shape conjI [OF url bound]]]]
  have 1: "\<exists>evs. trace (snd (run asciiBuiltins ?good ?ctx ?oct 0)) =
      [Debug (IssueOwner (Some ''acme'')),
       Debug (ProjectURL ''https://github.com/orgs/acme/projects/7''),
       Debug (ProjectOwner (Some ''acme'')),
       Debug (ProjectNumber (Some 7)),
       Debug (ProjectOwnerType (Some ''orgs'')),
       Graphql (GetProject Organization (Some ''acme'') (Some 7))] @ evs"
    unfolding own by (simp add: exInputs_def)
  from project_url_parsed_or_rejected [OF pass, where octokit = ?oct and w = 0,
      THEN conjunct2, THEN conjunct2, THEN mp, OF bad]
  have 2: "run asciiBuiltins ?bad ?ctx ?oct 0 =
     (Throws (InvalidProjectURL ''https://github.com/teams/acme/projects/7''),
      \<lparr>world = 0,
       trace = [Debug (IssueOwner (Some ''acme'')),
                Debug (ProjectURL ''https://github.com/teams/acme/projects/7'')]\<rparr>)"
    unfolding own by (simp add: exInputs_def)
  have shape': "projectUrlShape '''' ''users'' ''ann'' ''1203''"
    by (simp add: projectUrlShape_def isDigit_def)
  have url': "input_project_url ?long = projectUrl '''' ''users'' ''ann'' ''1203'' ''/views/1''"
    by (simp add: exInputs_def projectUrl_def)
  have digits: "''1203'' @ takeWhile isDigit ''/views/1'' = ''1203''"
    by (simp add: isDigit_def)
  have number: "horner_sum (\<lambda>c. of_char c - 48) (10 :: nat) (rev ''1203'') = 1203"
    by simp
  have bound': "horner_sum (\<lambda>c. of_char c - 48) (10 :: nat)
                  (rev (''1203'' @ takeWhile isDigit ''/views/1'')) \<le> 2 ^ 53"
    unfolding digits number by simp
  from project_url_parsed_or_rejected [OF pass, where octokit = ?oct and w = 0,
      THEN conjunct2, THEN conjunct1, THEN mp,
      OF conjI [OF parsesSafeIntegers_asciiBuiltins conjI [OF shape' conjI [OF url' bound']]]]
  have 3: "\<exists>evs. trace (snd (run asciiBuiltins ?long ?ctx ?oct 0)) =
      [Debug (IssueOwner (Some ''acme'')),
       Debug (ProjectURL ''github.com/users/ann/projects/1203/views/1''),
       Debug (ProjectOwner (Some ''ann'')),
       Debug (ProjectNumber (Some 1203)),
       Debug (ProjectOwnerType (Some ''users'')),
       Graphql (GetProject User (Some ''ann'') (Some 1203))] @ evs"
    unfolding own digits number by (simp add: exInputs_def)
  from pass [of "''https://github.com/orgs/acme/projects/7''"]
    parsesSafeIntegers_asciiBuiltins shape seven shape' number 1 2 3
  show ?thesis by blast
qed


section \<open>Adding the item\<close>

lemma addItem_same:
  assumes "issueOwnerName = projectOwnerName"
  shows "addItem octokit issueOwnerName projectOwnerName projectId issue s =
    (case addIssueToProject octokit
            (AddProjectV2ItemById projectId (Option.bind issue node_id)) (world s) of
       (Inl err, w') \<Rightarrow>
         (Throws (RequestError err),
          \<lparr>world = w',
           trace = trace s @ [Info CreatingProjectItem,
             Graphql (AddProjectV2ItemById projectId (Option.bind issue node_id))]\<rparr>)
     | (Inr itemId, w') \<Rightarrow>
         (Returns itemId,
          \<lparr>world = w',
           trace = trace s @ [Info CreatingProjectItem,
             Graphql (AddProjectV2ItemById projectId (Option.bind issue node_id)),
             SetOutput ''itemId'' itemId]\<rparr>))"
  using assms unfolding addItem_def
  by (simp add: thenDo_graphql return_def split: prod.splits sum.splits)

lemma addItem_other:
  assumes "issueOwnerName \<noteq> projectOwnerName"
  shows "addItem octokit issueOwnerName projectOwnerName projectId issue s =
    (case addDraftIssueToProject octokit
            (AddProjectV2DraftIssue projectId (Option.bind issue html_url)) (world s) of
       (Inl err, w') \<Rightarrow>
         (Throws (RequestError err),
          \<lparr>world = w',
           trace = trace s @ [Info CreatingDraftIssue,
             Graphql (AddProjectV2DraftIssue projectId (Option.bind issue html_url))]\<rparr>)
     | (Inr itemId, w') \<Rightarrow>
         (Returns itemId,
          \<lparr>world = w',
           trace = trace s @ [Info CreatingDraftIssue,
             Graphql (AddProjectV2DraftIssue projectId (Option.bind issue html_url)),
             SetOutput ''itemId'' itemId]\<rparr>))"
  using assms unfolding addItem_def
  by (simp add: thenDo_graphql return_def split: prod.splits sum.splits)

lemma finish_trace:
  "\<exists>evs. trace (snd (finish inp octokit q pon pn pid iid s)) = trace s @ evs \<and>
         filter isAddMutation evs = [] \<and> outputs evs = []"
proof -
  let ?P = "\<lambda>ev. \<not> isAddMutation ev \<and> (case ev of SetOutput _ _ \<Rightarrow> False | _ \<Rightarrow> True)"
  have "behaves ?P (\<lambda>_. True) (finish inp octokit q pon pn pid iid)"
    by (intro finish_behaves) (simp_all add: isAddMutation_def)
  from behaves_trace [OF this, of s] obtain evs where
    t: "trace (snd (finish inp octokit q pon pn pid iid s)) = trace s @ evs" and p: "list_all ?P evs"
    by blast
  from p have "filter isAddMutation evs = []"
    by (induction evs) auto
  moreover from p have "outputs evs = []"
    by (induction evs) (auto split: event.splits)
  ultimately show ?thesis using t by blast
qed

lemma isAddMutation_simps [simp]:
  "isAddMutation (Debug m) = False"
  "isAddMutation (Info m) = False"
  "isAddMutation (SetOutput k v) = False"
  "isAddMutation (Graphql (GetProject q on pn)) = False"
  "isAddMutation (Graphql (AddProjectV2ItemById pid cid)) = True"
  "isAddMutation (Graphql (AddProjectV2DraftIssue pid t)) = True"
  by (simp_all add: isAddMutation_def)

lemma run_after_query:
  assumes "skipLine js inp ctx = None" "urlParse (input_project_url inp) = Some g"
    "mustGetOwnerTypeQuery (Some (group_ownerType g)) = Inr q"
    "getProject octokit (getProjectRequest js g q) w = (Inr idResp, w1)"
  shows "run js inp ctx octokit w =
    thenDo (addItem octokit (issueOwnerNameOf ctx) (Some (group_ownerName g))
              (projectIdOf idResp q) (issueOf ctx))
      (finish inp octokit q (Some (group_ownerName g)) (b_parseInt js (group_projectNumber g))
         (projectIdOf idResp q))
      \<lparr>world = w1,
       trace = preamble inp ctx @ resolved js g @
         [Graphql (getProjectRequest js g q), Debug (ProjectNodeID (projectIdOf idResp q)),
          Debug (ContentID (Option.bind (issueOf ctx) node_id))]\<rparr>"
  unfolding run_def addToProject_goodUrl [OF assms(1-3)] thenDo_graphql
  using assms(4) by simp

lemma quiet_prefix [simp]:
  "filter isAddMutation (preamble inp ctx) = []" "filter isAddMutation (resolved js g) = []"
  "outputs (preamble inp ctx) = []" "outputs (resolved js g) = []"
  "isAddMutation (Graphql (getProjectRequest js g q)) = False"
  by (simp_all add: preamble_def resolved_def getProjectRequest_def)
text \<open>
  Claim C6. In a run that reaches the project-id query and gets its response, exactly one add
  mutation is sent: add-item-by-id, with the node id of the issue, when the owner login of
  the issue's repository equals the owner name of the project URL, and otherwise
  add-draft-issue, with the html URL of the issue as the title. When the mutation returns an
  item id, that id is the one output of the run, under the name \<open>itemId\<close>.
\<close>

theorem item_added_by_id_iff_same_owner:
  assumes "labelsMatch (labelOperatorOf js inp) (labeledOf js inp) (issueLabelsOf js ctx)"
    and "urlParse (input_project_url inp) = Some g"
    and "mustGetOwnerTypeQuery (Some (group_ownerType g)) = Inr q"
    and "getProject octokit
           (GetProject q (Some (group_ownerName g)) (b_parseInt js (group_projectNumber g))) w =
         (Inr idResp, w1)"
  shows "filter isAddMutation (trace (snd (run js inp ctx octokit w))) =
           [Graphql
             (if issueOwnerNameOf ctx = Some (group_ownerName g)
              then AddProjectV2ItemById (map_option projectV2_id (atOwner idResp q))
                     (Option.bind (issueOf ctx) node_id)
              else AddProjectV2DraftIssue (map_option projectV2_id (atOwner idResp q))
                     (Option.bind (issueOf ctx) html_url))] \<and>
         ((if issueOwnerNameOf ctx = Some (group_ownerName g)
           then addIssueToProject octokit
                  (AddProjectV2ItemById (map_option projectV2_id (atOwner idResp q))
                     (Option.bind (issueOf ctx) node_id)) w1
           else addDraftIssueToProject octokit
                  (AddProjectV2DraftIssue (map_option projectV2_id (atOwner idResp q))
                     (Option.bind (issueOf ctx) html_url)) w1) = (Inr itemId, w2) \<longrightarrow>
          outputs (trace (snd (run js inp ctx octokit w))) = [(''itemId'', itemId)])"
proof -
  from assms(1) have pass: "skipLine js inp ctx = None" by (simp add: skipLine_None_iff)
  from assms(4) have gp: "getProject octokit (getProjectRequest js g q) w = (Inr idResp, w1)"
    by (simp add: getProjectRequest_def)
  note r = run_after_query [OF pass assms(2,3) gp]
  let ?pid = "map_option projectV2_id (atOwner idResp q)"
  have pid: "projectIdOf idResp q = ?pid" by (simp add: projectIdOf_def)
  show ?thesis
  proof (cases "issueOwnerNameOf ctx = Some (group_ownerName g)")
    case True
    obtain a w' where m: "addIssueToProject octokit
        (AddProjectV2ItemById ?pid (Option.bind (issueOf ctx) node_id)) w1 = (a, w')"
      by (cases "addIssueToProject octokit
        (AddProjectV2ItemById ?pid (Option.bind (issueOf ctx) node_id)) w1")
    show ?thesis
    proof (cases a)
      case (Inl err)
      with m True show ?thesis
        unfolding r pid by (simp add: thenDo_def addItem_same)
    next
      case (Inr iid)
      let ?s = "\<lparr>world = w',
        trace = (preamble inp ctx @ resolved js g @
         [Graphql (getProjectRequest js g q), Debug (ProjectNodeID ?pid),
          Debug (ContentID (Option.bind (issueOf ctx) node_id))]) @
         [Info CreatingProjectItem,
          Graphql (AddProjectV2ItemById ?pid (Option.bind (issueOf ctx) node_id)),
          SetOutput ''itemId'' iid]\<rparr>"
      from finish_trace [of inp octokit q "Some (group_ownerName g)"
          "b_parseInt js (group_projectNumber g)" ?pid iid ?s]
      obtain evs where "trace (snd (finish inp octokit q (Some (group_ownerName g))
          (b_parseInt js (group_projectNumber g)) ?pid iid ?s)) = trace ?s @ evs"
        and quiet: "filter isAddMutation evs = []" "outputs evs = []"
        by blast
      with m True Inr have "trace (snd (run js inp ctx octokit w)) = trace ?s @ evs"
        unfolding r pid by (simp add: thenDo_def addItem_same)
      with quiet m True Inr show ?thesis by auto
    qed
  next
    case False
    obtain a w' where m: "addDraftIssueToProject octokit
        (AddProjectV2DraftIssue ?pid (Option.bind (issueOf ctx) html_url)) w1 = (a, w')"
      by (cases "addDraftIssueToProject octokit
        (AddProjectV2DraftIssue ?pid (Option.bind (issueOf ctx) html_url)) w1")
    show ?thesis
    proof (cases a)
      case (Inl err)
      with m False show ?thesis
        unfolding r pid by (simp add: thenDo_def addItem_other)
    next
      case (Inr iid)
      let ?s = "\<lparr>world = w',
        trace = (preamble inp ctx @ resolved js g @
         [Graphql (getProjectRequest js g q), Debug (ProjectNodeID ?pid),
          Debug (ContentID (Option.bind (issueOf ctx) node_id))]) @
         [Info CreatingDraftIssue,
          Graphql (AddProjectV2DraftIssue ?pid (Option.bind (issueOf ctx) html_url)),
          SetOutput ''itemId'' iid]\<rparr>"
      from finish_trace [of inp octokit q "Some (group_ownerName g)"
          "b_parseInt js (group_projectNumber g)" ?pid iid ?s]
      obtain evs where "trace (snd (finish inp octokit q (Some (group_ownerName g))
          (b_parseInt js (group_projectNumber g)) ?pid iid ?s)) = trace ?s @ evs"
        and quiet: "filter isAddMutation evs = []" "outputs evs = []"
        by blast
      with m False Inr have "trace (snd (run js inp ctx octokit w)) = trace ?s @ evs"
        unfolding r pid by (simp add: thenDo_def addItem_other)
      with quiet m False Inr show ?thesis by auto
    qed
  qed
qed
text \<open>The examples of the specification: the project of \<open>acme\<close>, an issue of a repository of
  \<open>acme\<close> and an issue of a repository of \<open>other-org\<close>.\<close>

theorem item_added_witness:
  "filter isAddMutation (trace (snd (run
      asciiBuiltins (exInputs ''https://github.com/orgs/acme/projects/7'' '''' '''' '''')
      (exPayload [] ''acme'')
      (exOctokit \<lparr>organization = Some \<lparr>projectV2_id = ''PVT_1''\<rparr>, user = None\<rparr>
         \<lparr>organization = None, user = None\<rparr>) 0))) =
     [Graphql (AddProjectV2ItemById (Some ''PVT_1'') (Some ''I_1''))] \<and>
   outputs (trace (snd (run
      asciiBuiltins (exInputs ''https://github.com/orgs/acme/projects/7'' '''' '''' '''')
      (exPayload [] ''acme'')
      (exOctokit \<lparr>organization = Some \<lparr>projectV2_id = ''PVT_1''\<rparr>, user = None\<rparr>
         \<lparr>organization = None, user = None\<rparr>) 0))) =
     [(''itemId'', ''PVTI_1'')] \<and>
   filter isAddMutation (trace (snd (run
      asciiBuiltins (exInputs ''https://github.com/orgs/acme/projects/7'' '''' '''' '''')
      (exPayload [] ''other-org'')
      (exOctokit \<lparr>organization = Some \<lparr>projectV2_id = ''PVT_1''\<rparr>, user = None\<rparr>
         \<lparr>organization = None, user = None\<rparr>) 0))) =
     [Graphql (AddProjectV2DraftIssue (Some ''PVT_1'')
        (Some ''https://github.com/other-org/repo/issues/1''))] \<and>
   outputs (trace (snd (run
      asciiBuiltins (exInputs ''https://github.com/orgs/acme/projects/7'' '''' '''' '''')
      (exPayload [] ''other-org'')
      (exOctokit \<lparr>organization = Some \<lparr>projectV2_id = ''PVT_1''\<rparr>, user = None\<rparr>
         \<lparr>organization = None, user = None\<rparr>) 0))) =
     [(''itemId'', ''PVTI_2'')]"
proof -
  let ?inp = "exInputs ''https://github.com/orgs/acme/projects/7'' '''' '''' ''''"
  let ?idResp = "\<lparr>organization = Some \<lparr>projectV2_id = ''PVT_1''\<rparr>, user = None\<rparr>"
  let ?oct = "exOctokit ?idResp \<lparr>organization = None, user = None\<rparr>"
  let ?g = "\<lparr>group_ownerType = ''orgs'', group_ownerName = ''acme'', group_projectNumber = ''7''\<rparr>"
  have ls: "labeledOf asciiBuiltins ?inp = []" "labelOperatorOf asciiBuiltins ?inp = ''''"
    by (simp_all add: labeledOf_def labelOperatorOf_def exInputs_def string_defs)
  have pass: "labelsMatch (labelOperatorOf asciiBuiltins ?inp) (labeledOf asciiBuiltins ?inp) (issueLabelsOf asciiBuiltins ctx)" for ctx
    unfolding ls by (simp add: labelsMatch_def)
  have p: "urlParse (input_project_url ?inp) = Some ?g"
    by (simp add: exInputs_def urlParse_def matchOwnerType_def isDigit_def)
  have q: "mustGetOwnerTypeQuery (Some (group_ownerType ?g)) = Inr Organization"
    by (simp add: mustGetOwnerTypeQuery_def)
  have gp: "getProject ?oct
      (GetProject Organization (Some (group_ownerName ?g)) (b_parseInt asciiBuiltins (group_projectNumber ?g))) 0 =
      (Inr ?idResp, 1)"
    by (simp add: exOctokit_def)
  have a: "addIssueToProject ?oct rq 1 = (Inr ''PVTI_1'', 2)"
    "addDraftIssueToProject ?oct rq 1 = (Inr ''PVTI_2'', 2)" for rq
    by (simp_all add: exOctokit_def)
  have c: "issueOwnerNameOf (exPayload [] owner) = Some owner"
    "Option.bind (issueOf (exPayload [] owner)) node_id = Some ''I_1''"
    "Option.bind (issueOf (exPayload [] owner)) html_url =
       Some (''https://github.com/'' @ owner @ ''/repo/issues/1'')" for owner
    by (simp_all add: issueOwnerNameOf_def issueOf_def exPayload_def)
  from item_added_by_id_iff_same_owner [OF pass p q gp, where ctx = "exPayload [] ''acme''"
      and itemId = "''PVTI_1''" and ?w2.0 = 2]
    item_added_by_id_iff_same_owner [OF pass p q gp, where ctx = "exPayload [] ''other-org''"
      and itemId = "''PVTI_2''" and ?w2.0 = 2]
  show ?thesis
    unfolding a c by (simp add: atOwner_def)
qed

section \<open>The project id and the add mutation\<close>

text \<open>
  Claim C1 says that a run whose project-id response lacks the project identifier throws
  before any add mutation is sent. The program tests \<open>projectId === undefined\<close> only after
  the \<open>if\<close> statement that sends the mutation. In the run below the response has neither an
  \<open>organization\<close> nor a \<open>user\<close> member: the add-item-by-id mutation is sent with no project
  id, its item id is set as the output, and only then the run throws the error on the
  undefined project id. The inputs are ASCII and the project number is 7, so the run is the
  same on every platform that treats ASCII strings and safe integers as ECMAScript does.
\<close>

theorem add_mutation_sent_before_project_id_check:
  assumes "agreesOnAscii js" "parsesSafeIntegers js"
  shows "run js (exInputs ''https://github.com/orgs/acme/projects/7'' '''' '''' '''')
     (exPayload [] ''acme'')
     (exOctokit \<lparr>organization = None, user = None\<rparr> \<lparr>organization = None, user = None\<rparr>) 0 =
   (Throws ProjectIdUndefined,
    \<lparr>world = 2,
     trace =
       [Debug (IssueOwner (Some ''acme'')),
        Debug (ProjectURL ''https://github.com/orgs/acme/projects/7''),
        Debug (ProjectOwner (Some ''acme'')),
        Debug (ProjectNumber (Some 7)),
        Debug (ProjectOwnerType (Some ''orgs'')),
        Graphql (GetProject Organization (Some ''acme'') (Some 7)),
        Debug (ProjectNodeID None),
        Debug (ContentID (Some ''I_1'')),
        Info CreatingProjectItem,
        Graphql (AddProjectV2ItemById None (Some ''I_1'')),
        SetOutput ''itemId'' ''PVTI_1'']\<rparr>)"
proof -
  let ?inp = "exInputs ''https://github.com/orgs/acme/projects/7'' '''' '''' ''''"
  let ?ctx = "exPayload [] ''acme''"
  let ?idResp = "\<lparr>organization = None, user = None\<rparr> :: ProjectNodeIDResponse"
  let ?oct = "exOctokit ?idResp \<lparr>organization = None, user = None\<rparr>"
  let ?g = "\<lparr>group_ownerType = ''orgs'', group_ownerName = ''acme'', group_projectNumber = ''7''\<rparr>"
  have e: "isAscii ''''" "b_trim js '''' = ''''" "b_toLocaleLowerCase js '''' = ''''"
    using assms(1) by (simp_all add: agreesOnAscii_def isAscii_def string_defs)
  have "labeledOf js ?inp = []"
    unfolding labeledOf_ascii [OF assms(1), of ?inp, unfolded exInputs_def, simplified, OF e(1),
      folded exInputs_def]
    by (simp add: string_defs)
  moreover have "labelOperatorOf js ?inp = ''''"
    by (simp add: labelOperatorOf_def exInputs_def e)
  ultimately have pass: "skipLine js ?inp ?ctx = None"
    unfolding skipLine_None_iff by (simp add: labelsMatch_def)
  have p: "urlParse (input_project_url ?inp) = Some ?g"
    by (simp add: exInputs_def urlParse_def matchOwnerType_def isDigit_def)
  have q: "mustGetOwnerTypeQuery (Some (group_ownerType ?g)) = Inr Organization"
    by (simp add: mustGetOwnerTypeQuery_def)
  have gp: "getProject ?oct (getProjectRequest js ?g Organization) 0 = (Inr ?idResp, 1)"
    by (simp add: exOctokit_def)
  have "''7'' \<noteq> [] \<and> list_all isDigit ''7'' \<and>
        horner_sum (\<lambda>c. of_char c - 48) (10 :: nat) (rev ''7'') \<le> 2 ^ 53"
    by (simp add: isDigit_def)
  with assms(2) have "b_parseInt js ''7'' =
      Some (horner_sum (\<lambda>c. of_char c - 48) 10 (rev ''7''))"
    unfolding parsesSafeIntegers_def by blast
  then have n: "b_parseInt js ''7'' = Some 7" by simp
  show ?thesis
    unfolding run_after_query [OF pass p q gp]
    by (simp add: thenDo_def addItem_same finish_def throw_def projectIdOf_def atOwner_def
          issueOwnerNameOf_def issueOf_def exPayload_def exOctokit_def exInputs_def
          preamble_def resolved_def getProjectRequest_def n)
qed

text \<open>The platform of the ASCII fragment is such a platform; on it the run is the following.\<close>

theorem add_mutation_witness:
  "agreesOnAscii asciiBuiltins \<and> parsesSafeIntegers asciiBuiltins \<and>
   run asciiBuiltins (exInputs ''https://github.com/orgs/acme/projects/7'' '''' '''' '''')
     (exPayload [] ''acme'')
     (exOctokit \<lparr>organization = None, user = None\<rparr> \<lparr>organization = None, user = None\<rparr>) 0 =
   (Throws ProjectIdUndefined,
    \<lparr>world = 2,
     trace =
       [Debug (IssueOwner (Some ''acme'')),
        Debug (ProjectURL ''https://github.com/orgs/acme/projects/7''),
        Debug (ProjectOwner (Some ''acme'')),
        Debug (ProjectNumber (Some 7)),
        Debug (ProjectOwnerType (Some ''orgs'')),
        Graphql (GetProject Organization (Some ''acme'') (Some 7)),
        Debug (ProjectNodeID None),
        Debug (ContentID (Some ''I_1'')),
        Info CreatingProjectItem,
        Graphql (AddProjectV2ItemById None (Some ''I_1'')),
        SetOutput ''itemId'' ''PVTI_1'']\<rparr>)"
  using add_mutation_sent_before_project_id_check
    [OF agreesOnAscii_asciiBuiltins parsesSafeIntegers_asciiBuiltins]
    agreesOnAscii_asciiBuiltins parsesSafeIntegers_asciiBuiltins
  by blast

text \<open>
  What does hold of the project id: when the response of the project-id query has no member
  under the owner's key, the run sends the add mutation with no project id and then stops with
  an error, the one on the undefined project id when the mutation returned. The field-id query
  and the update mutation of the status override are never sent.
\<close>

theorem undefined_project_id_stops_before_status_update:
  assumes "labelsMatch (labelOperatorOf js inp) (labeledOf js inp) (issueLabelsOf js ctx)"
    and "urlParse (input_project_url inp) = Some g"
    and "mustGetOwnerTypeQuery (Some (group_ownerType g)) = Inr q"
    and "getProject octokit
           (GetProject q (Some (group_ownerName g)) (b_parseInt js (group_projectNumber g))) w =
         (Inr idResp, w1)"
    and "atOwner idResp q = None"
  shows "requests (trace (snd (run js inp ctx octokit w))) =
           [GetProject q (Some (group_ownerName g)) (b_parseInt js (group_projectNumber g)),
            if issueOwnerNameOf ctx = Some (group_ownerName g)
            then AddProjectV2ItemById None (Option.bind (issueOf ctx) node_id)
            else AddProjectV2DraftIssue None (Option.bind (issueOf ctx) html_url)] \<and>
         (fst (run js inp ctx octokit w) = Throws ProjectIdUndefined \<or>
          (\<exists>err. fst (run js inp ctx octokit w) = Throws (RequestError err)))"
proof -
  from assms(1) have pass: "skipLine js inp ctx = None" by (simp add: skipLine_None_iff)
  from assms(4) have gp: "getProject octokit (getProjectRequest js g q) w = (Inr idResp, w1)"
    by (simp add: getProjectRequest_def)
  note r = run_after_query [OF pass assms(2,3) gp]
  have pid: "projectIdOf idResp q = None" using assms(5) by (simp add: projectIdOf_def)
  have quiet: "requests (preamble inp ctx) = []" "requests (resolved js g) = []"
    by (simp_all add: preamble_def resolved_def)
  show ?thesis
  proof (cases "issueOwnerNameOf ctx = Some (group_ownerName g)")
    case True
    then show ?thesis
      unfolding r pid
      by (auto simp: thenDo_def addItem_same finish_def throw_def quiet getProjectRequest_def
            split: prod.splits sum.splits)
  next
    case False
    then show ?thesis
      unfolding r pid
      by (auto simp: thenDo_def addItem_other finish_def throw_def quiet getProjectRequest_def
            split: prod.splits sum.splits)
  qed
qed

text \<open>The run above, read through this theorem, with a status override configured.\<close>

theorem undefined_project_id_witness:
  "requests (trace (snd (run asciiBuiltins (exInputs ''https://github.com/orgs/acme/projects/7'' '''' '''' ''Todo'')
     (exPayload [] ''acme'')
     (exOctokit \<lparr>organization = None, user = None\<rparr> \<lparr>organization = None, user = None\<rparr>) 0))) =
     [GetProject Organization (Some ''acme'') (Some 7),
      AddProjectV2ItemById None (Some ''I_1'')]"
proof -
  let ?inp = "exInputs ''https://github.com/orgs/acme/projects/7'' '''' '''' ''Todo''"
  let ?idResp = "\<lparr>organization = None, user = None\<rparr> :: ProjectNodeIDResponse"
  let ?oct = "exOctokit ?idResp \<lparr>organization = None, user = None\<rparr>"
  let ?g = "\<lparr>group_ownerType = ''orgs'', group_ownerName = ''acme'', group_projectNumber = ''7''\<rparr>"
  have ls: "labeledOf asciiBuiltins ?inp = []" "labelOperatorOf asciiBuiltins ?inp = ''''"
    by (simp_all add: labeledOf_def labelOperatorOf_def exInputs_def string_defs)
  have pass: "labelsMatch (labelOperatorOf asciiBuiltins ?inp) (labeledOf asciiBuiltins ?inp) (issueLabelsOf asciiBuiltins ctx)" for ctx
    unfolding ls by (simp add: labelsMatch_def)
  have p: "urlParse (input_project_url ?inp) = Some ?g"
    by (simp add: exInputs_def urlParse_def matchOwnerType_def isDigit_def)
  have q: "mustGetOwnerTypeQuery (Some (group_ownerType ?g)) = Inr Organization"
    by (simp add: mustGetOwnerTypeQuery_def)
  have gp: "getProject ?oct
      (GetProject Organization (Some (group_ownerName ?g)) (b_parseInt asciiBuiltins (group_projectNumber ?g))) 0 =
      (Inr ?idResp, 1)"
    by (simp add: exOctokit_def)
  have no: "atOwner ?idResp Organization = None"
    by (simp add: atOwner_def)
  have n: "b_parseInt asciiBuiltins ''7'' = Some 7"
    by (simp add: asciiBuiltins_def parseInt_def isDigit_def)
  from undefined_project_id_stops_before_status_update [OF pass p q gp no,
      where ctx = "exPayload [] ''acme''"]
  show ?thesis
    by (simp add: n issueOwnerNameOf_def issueOf_def exPayload_def)
qed

section \<open>A complete run\<close>

text \<open>
  A run that goes all the way, on the example project of the specification with the status
  override \<open>Done\<close>: the project-id query, the add-item-by-id mutation, the output, the
  field-id query and the update mutation with the id of the option \<open>Done\<close>, in this order;
  the run returns, and the service has answered four requests.
\<close>

theorem complete_run_example:
  "run asciiBuiltins (exInputs ''https://github.com/orgs/acme/projects/7'' ''bug'' ''or'' ''Done'')
     (exPayload [''Bug''] ''acme'')
     (exOctokit \<lparr>organization = Some \<lparr>projectV2_id = ''PVT_1''\<rparr>, user = None\<rparr>
        \<lparr>organization = Some \<lparr>field_id = ''F_1'', options = Some
             [\<lparr>option_id = ''o1'', option_name = ''Todo''\<rparr>,
              \<lparr>option_id = ''o2'', option_name = ''Done''\<rparr>]\<rparr>, user = None\<rparr>) 0 =
   (Returns (),
    \<lparr>world = 4,
     trace =
       [Debug (IssueOwner (Some ''acme'')),
        Debug (ProjectURL ''https://github.com/orgs/acme/projects/7''),
        Debug (ProjectOwner (Some ''acme'')),
        Debug (ProjectNumber (Some 7)),
        Debug (ProjectOwnerType (Some ''orgs'')),
        Graphql (GetProject Organization (Some ''acme'') (Some 7)),
        Debug (ProjectNodeID (Some ''PVT_1'')),
        Debug (ContentID (Some ''I_1'')),
        Info CreatingProjectItem,
        Graphql (AddProjectV2ItemById (Some ''PVT_1'') (Some ''I_1'')),
        SetOutput ''itemId'' ''PVTI_1'',
        Debug (StatusFieldOverride ''Done''),
        Info OverridingStatus,
        Graphql (GetStatusFieldId Organization ''acme'' (Some 7)),
        Debug (StatusFieldID (Some ''F_1'')),
        Debug (StatusOptionID (Some ''o2'')),
        Graphql (UpdateProjectV2ItemFieldValue ''PVT_1'' ''PVTI_1'' (Some ''F_1'') ''o2'')]\<rparr>)"
proof -
  let ?inp = "exInputs ''https://github.com/orgs/acme/projects/7'' ''bug'' ''or'' ''Done''"
  let ?ctx = "exPayload [''Bug''] ''acme''"
  let ?idResp = "\<lparr>organization = Some \<lparr>projectV2_id = ''PVT_1''\<rparr>, user = None\<rparr>"
  let ?oct = "exOctokit ?idResp
        \<lparr>organization = Some \<lparr>field_id = ''F_1'', options = Some
             [\<lparr>option_id = ''o1'', option_name = ''Todo''\<rparr>,
              \<lparr>option_id = ''o2'', option_name = ''Done''\<rparr>]\<rparr>, user = None\<rparr>"
  let ?g = "\<lparr>group_ownerType = ''orgs'', group_ownerName = ''acme'', group_projectNumber = ''7''\<rparr>"
  have ls: "labeledOf asciiBuiltins ?inp = [''bug'']" "labelOperatorOf asciiBuiltins ?inp = ''or''"
    by (simp_all add: labeledOf_def labelOperatorOf_def exInputs_def string_defs)
  have il: "issueLabelsOf asciiBuiltins ?ctx = [''bug'']"
    by (simp add: issueLabelsOf_def issueLabelNames_def issueOf_def exPayload_def string_defs)
  have pass: "skipLine asciiBuiltins ?inp ?ctx = None"
    unfolding skipLine_None_iff ls il by (simp add: labelsMatch_def)
  have p: "urlParse (input_project_url ?inp) = Some ?g"
    by (simp add: exInputs_def urlParse_def matchOwnerType_def isDigit_def)
  have q: "mustGetOwnerTypeQuery (Some (group_ownerType ?g)) = Inr Organization"
    by (simp add: mustGetOwnerTypeQuery_def)
  have gp: "getProject ?oct (getProjectRequest asciiBuiltins ?g Organization) 0 = (Inr ?idResp, 1)"
    by (simp add: exOctokit_def)
  have n: "b_parseInt asciiBuiltins ''7'' = Some 7"
    by (simp add: asciiBuiltins_def parseInt_def isDigit_def)
  have u: "updateStatusFieldValueOnCard ?inp ?oct Organization ''acme'' (Some 7) ''PVT_1'' ''PVTI_1''
             \<lparr>world = 2, trace = t\<rparr> =
      (Returns (),
       \<lparr>world = 4,
        trace = t @
          [Debug (StatusFieldOverride ''Done''),
           Info OverridingStatus,
           Graphql (GetStatusFieldId Organization ''acme'' (Some 7)),
           Debug (StatusFieldID (Some ''F_1'')),
           Debug (StatusOptionID (Some ''o2'')),
           Graphql (UpdateProjectV2ItemFieldValue ''PVT_1'' ''PVTI_1'' (Some ''F_1'') ''o2'')]\<rparr>)" for t
    by (simp add: updateStatusFieldValueOnCard_def Let_def thenDo_graphql exOctokit_def
          exInputs_def atOwner_def return_def)
  have a: "addItem ?oct (issueOwnerNameOf ?ctx) (Some (group_ownerName ?g))
             (projectIdOf ?idResp Organization) (issueOf ?ctx) \<lparr>world = 1, trace = t\<rparr> =
      (Returns ''PVTI_1'',
       \<lparr>world = 2,
        trace = t @
          [Info CreatingProjectItem,
           Graphql (AddProjectV2ItemById (Some ''PVT_1'') (Some ''I_1'')),
           SetOutput ''itemId'' ''PVTI_1'']\<rparr>)" for t
    by (simp add: addItem_same issueOwnerNameOf_def issueOf_def exPayload_def exOctokit_def
          projectIdOf_def atOwner_def)
  have pre: "preamble ?inp ?ctx =
      [Debug (IssueOwner (Some ''acme'')),
       Debug (ProjectURL ''https://github.com/orgs/acme/projects/7'')]"
    by (simp add: preamble_def issueOwnerNameOf_def exPayload_def exInputs_def)
  have res: "resolved asciiBuiltins ?g =
      [Debug (ProjectOwner (Some ''acme'')), Debug (ProjectNumber (Some 7)),
       Debug (ProjectOwnerType (Some ''orgs''))]"
    by (simp add: resolved_def n)
  have rq: "getProjectRequest asciiBuiltins ?g Organization = GetProject Organization (Some ''acme'') (Some 7)"
    by (simp add: getProjectRequest_def n)
  have pid: "projectIdOf ?idResp Organization = Some ''PVT_1''"
    by (simp add: projectIdOf_def atOwner_def)
  have cid: "Option.bind (issueOf ?ctx) node_id = Some ''I_1''"
    by (simp add: issueOf_def exPayload_def)
  show ?thesis
    unfolding run_after_query [OF pass p q gp] thenDo_def a pre res rq
    by (simp add: finish_def pid cid n u)
qed
end
